theory Spec2Isabelle
  imports Complex_Main "HOL-Library.Word"
begin

unbundle bit_operations_syntax

section \<open>JavaScript values used by \<open>processProfile\<close>\<close>

text \<open>
  The program under study is the function \<open>processProfile\<close> of \<open>server.js\<close> with its two
  nested helpers \<open>createDateFromPositionDate\<close> and \<open>isExcludedPosition\<close>.  It reads a
  parsed JSON profile and builds a flat output object.

  Conventions of the embedding:
  \<^item> a JavaScript string is the list of its UTF-16 code units;
  \<^item> an optional property is an \<open>option\<close>: \<open>None\<close> is the absent (\<open>undefined\<close>) property, and
    for an element of one of the arrays of the profile it is \<open>null\<close>; a present property
    has the type the profile format gives it (string, integer number, boolean, array,
    object);
  \<^item> a thrown exception is the left injection of a sum;
  \<^item> every \<open>new Date()\<close> is a read of a clock, a function from the number of reads
    performed so far to the instant returned, in milliseconds since the epoch;
  \<^item> the local time zone of the server is UTC;
  \<^item> numbers computed from dates are exact rationals or \<open>NaN\<close>.
\<close>

subsection \<open>Strings\<close>

type_synonym jsstring = "16 word list"

definition js :: "string \<Rightarrow> jsstring" where
  "js s = map (\<lambda>c. of_char c) s"

text \<open>\<open>x || d\<close> for an optional string \<open>x\<close>: the empty string is falsy.\<close>

definition orStr :: "jsstring option \<Rightarrow> jsstring \<Rightarrow> jsstring" where
  "orStr x d = (case x of None \<Rightarrow> d | Some s \<Rightarrow> if s = [] then d else s)"

text \<open>Truthiness of an optional string, as in \<open>if (profile.headline)\<close>.\<close>

definition truthyStr :: "jsstring option \<Rightarrow> bool" where
  "truthyStr x = (case x of None \<Rightarrow> False | Some s \<Rightarrow> s \<noteq> [])"

text \<open>The white space of the regular expression class \<open>\s\<close>.\<close>

definition isWhiteSpace :: "16 word \<Rightarrow> bool" where
  "isWhiteSpace c =
     (c = 0x09 \<or> c = 0x0A \<or> c = 0x0B \<or> c = 0x0C \<or> c = 0x0D \<or> c = 0x20 \<or> c = 0xA0 \<or>
      c = 0x1680 \<or> (0x2000 \<le> c \<and> c \<le> 0x200A) \<or> c = 0x2028 \<or> c = 0x2029 \<or>
      c = 0x202F \<or> c = 0x205F \<or> c = 0x3000 \<or> c = 0xFEFF)"

text \<open>
  \<open>s.split(/\s+/)\<close>: the pieces between maximal runs of white space; a run at either end
  of the string leaves an empty piece there.  The flag says that the scan is inside a run.
\<close>

fun splitAux :: "bool \<Rightarrow> jsstring \<Rightarrow> jsstring \<Rightarrow> jsstring list" where
  "splitAux ws cur [] = [cur]"
| "splitAux ws cur (c # cs) =
     (if isWhiteSpace c
      then (if ws then splitAux True cur cs else cur # splitAux True [] cs)
      else splitAux False (cur @ [c]) cs)"

definition split_ws :: "jsstring \<Rightarrow> jsstring list" where
  "split_ws s = splitAux False [] s"

text \<open>
  \<open>String.prototype.toLowerCase\<close> on the Basic Latin and Latin-1 Supplement blocks; code
  units outside these blocks are left as they are.
\<close>

definition lowerUnit :: "16 word \<Rightarrow> 16 word" where
  "lowerUnit c =
     (if (0x41 \<le> c \<and> c \<le> 0x5A) \<or> (0xC0 \<le> c \<and> c \<le> 0xDE \<and> c \<noteq> 0xD7) then c + 0x20 else c)"

definition toLowerCase :: "jsstring \<Rightarrow> jsstring" where
  "toLowerCase s = map lowerUnit s"

text \<open>\<open>s.includes(pat)\<close>: \<open>pat\<close> occurs in \<open>s\<close> at some position.\<close>

fun startsWith :: "jsstring \<Rightarrow> jsstring \<Rightarrow> bool" where
  "startsWith s [] = True"
| "startsWith [] (p # ps) = False"
| "startsWith (c # cs) (p # ps) = (c = p \<and> startsWith cs ps)"

fun includes' :: "jsstring \<Rightarrow> jsstring \<Rightarrow> bool" where
  "includes' [] pat = (pat = [])"
| "includes' (c # cs) pat = (startsWith (c # cs) pat \<or> includes' cs pat)"

text \<open>\<open>xs.join(sep)\<close> on an array of strings.\<close>

fun join :: "jsstring \<Rightarrow> jsstring list \<Rightarrow> jsstring" where
  "join sep [] = []"
| "join sep [x] = x"
| "join sep (x # y # ys) = x @ sep @ join sep (y # ys)"

text \<open>An array element that is \<open>undefined\<close> is joined as the empty string.\<close>

definition joinOpt :: "jsstring \<Rightarrow> jsstring option list \<Rightarrow> jsstring" where
  "joinOpt sep xs = join sep (map (\<lambda>x. case x of None \<Rightarrow> [] | Some s \<Rightarrow> s) xs)"

text \<open>Decimal rendering of an integer number, as a template literal does it.\<close>

fun showNat :: "nat \<Rightarrow> string" where
  "showNat n = (if n < 10 then [char_of (48 + n)] else showNat (n div 10) @ [char_of (48 + n mod 10)])"

definition showInt :: "int \<Rightarrow> jsstring" where
  "showInt i = js (if i < 0 then CHR ''-'' # showNat (nat (- i)) else showNat (nat i))"

text \<open>\<open>String(x)\<close> of an optional string: the absent value reads \<open>undefined\<close>.\<close>

definition toString :: "jsstring option \<Rightarrow> jsstring" where
  "toString x = (case x of None \<Rightarrow> js ''undefined'' | Some s \<Rightarrow> s)"

subsection \<open>Numbers\<close>

datatype jsnum = NaN | Num rat

fun num_sub :: "jsnum \<Rightarrow> jsnum \<Rightarrow> jsnum" where
  "num_sub (Num a) (Num b) = Num (a - b)"
| "num_sub _ _ = NaN"

text \<open>Division by a non-zero constant.\<close>

fun num_div :: "jsnum \<Rightarrow> rat \<Rightarrow> jsnum" where
  "num_div (Num a) d = Num (a / d)"
| "num_div NaN d = NaN"

fun Math_max :: "jsnum \<Rightarrow> jsnum \<Rightarrow> jsnum" where
  "Math_max (Num a) (Num b) = Num (max a b)"
| "Math_max _ _ = NaN"

text \<open>\<open>Math.round\<close> rounds to the nearest integer, a tie towards plus infinity.\<close>

fun Math_round :: "jsnum \<Rightarrow> jsnum" where
  "Math_round (Num a) = Num (of_int \<lfloor>a + 1 / 2\<rfloor>)"
| "Math_round NaN = NaN"

text \<open>Comparisons: any comparison with \<open>NaN\<close> is false.\<close>

fun num_ge :: "jsnum \<Rightarrow> jsnum \<Rightarrow> bool" where
  "num_ge (Num a) (Num b) = (b \<le> a)"
| "num_ge _ _ = False"

fun num_lt :: "jsnum \<Rightarrow> jsnum \<Rightarrow> bool" where
  "num_lt (Num a) (Num b) = (a < b)"
| "num_lt _ _ = False"

text \<open>\<open>x || 0\<close> for a number: zero and \<open>NaN\<close> are falsy.\<close>

fun orZero :: "jsnum \<Rightarrow> jsnum" where
  "orZero NaN = Num 0"
| "orZero (Num a) = Num a"

subsection \<open>Dates\<close>

text \<open>
  A \<open>Date\<close> object holds a time value, a whole number of milliseconds since the epoch of
  magnitude at most \<open>8.64e15\<close>, or it is invalid.  The day arithmetic is the one of the
  language standard (\<open>DayFromYear\<close>, \<open>InLeapYear\<close>, \<open>MakeDay\<close>, \<open>TimeClip\<close>).
\<close>

datatype jsdate = InvalidDate | Date int

definition msPerDay :: int where
  "msPerDay = 86400000"

definition dayFromYear :: "int \<Rightarrow> int" where
  "dayFromYear y = 365 * (y - 1970) + (y - 1969) div 4 - (y - 1901) div 100 + (y - 1601) div 400"

definition inLeapYear :: "int \<Rightarrow> bool" where
  "inLeapYear y = (y mod 4 = 0 \<and> (y mod 100 \<noteq> 0 \<or> y mod 400 = 0))"

text \<open>Days of the year before the first of month \<open>m\<close> (zero-based).\<close>

definition monthStart :: "bool \<Rightarrow> int \<Rightarrow> int" where
  "monthStart leap m =
     [0, 31, 59, 90, 120, 151, 181, 212, 243, 273, 304, 334] ! nat m
       + (if leap \<and> 2 \<le> m then 1 else 0)"

text \<open>\<open>MakeDay\<close>: months outside \<open>0..11\<close> carry into the year, days run on from the first.\<close>

definition makeDay :: "int \<Rightarrow> int \<Rightarrow> int \<Rightarrow> int" where
  "makeDay y m d =
     (let ym = y + m div 12; mn = m mod 12
      in dayFromYear ym + monthStart (inLeapYear ym) mn + d - 1)"

definition timeClip :: "int \<Rightarrow> jsdate" where
  "timeClip t = (if \<bar>t\<bar> \<le> 8640000000000000 then Date t else InvalidDate)"

text \<open>\<open>new Date(year, month, day)\<close>: a year from 0 to 99 means 1900 plus that year.\<close>

definition newDate :: "int \<Rightarrow> int \<Rightarrow> int \<Rightarrow> jsdate" where
  "newDate y m d =
     (let yr = (if 0 \<le> y \<and> y \<le> 99 then 1900 + y else y)
      in timeClip (makeDay yr m d * msPerDay))"

text \<open>\<open>YearFromTime\<close> and \<open>MonthFromTime\<close>, on the day number.\<close>

definition yearFromDay :: "int \<Rightarrow> int" where
  "yearFromDay d =
     (let y = 1970 + (400 * d) div 146097
      in if dayFromYear (y + 1) \<le> d then y + 1
         else if dayFromYear y \<le> d then y else y - 1)"

definition monthFromDay :: "int \<Rightarrow> int" where
  "monthFromDay d =
     (let y = yearFromDay d; leap = inLeapYear y; k = d - dayFromYear y
      in int (length (filter (\<lambda>m. monthStart leap m \<le> k) [1, 2, 3, 4, 5, 6, 7, 8, 9, 10, 11])))"

definition dateFromDay :: "int \<Rightarrow> int" where
  "dateFromDay d =
     (let y = yearFromDay d
      in d - dayFromYear y - monthStart (inLeapYear y) (monthFromDay d) + 1)"

definition monthShort :: "int \<Rightarrow> jsstring" where
  "monthShort m =
     js ([''Jan'', ''Feb'', ''Mar'', ''Apr'', ''May'', ''Jun'',
          ''Jul'', ''Aug'', ''Sep'', ''Oct'', ''Nov'', ''Dec''] ! nat m)"

text \<open>
  \<open>d.toLocaleDateString('en-US', {year: 'numeric', month: 'short'})\<close>: the short month
  name, a space and the year.
\<close>

fun toLocaleDateString :: "jsdate \<Rightarrow> jsstring" where
  "toLocaleDateString InvalidDate = js ''Invalid Date''"
| "toLocaleDateString (Date t) =
     monthShort (monthFromDay (t div msPerDay)) @ js '' '' @ showInt (yearFromDay (t div msPerDay))"

text \<open>The number a date stands for in arithmetic and comparisons.\<close>

fun valueOf :: "jsdate \<Rightarrow> jsnum" where
  "valueOf InvalidDate = NaN"
| "valueOf (Date t) = Num (of_int t)"

type_synonym clock = "nat \<Rightarrow> int"

section \<open>The profile and the output\<close>

record pdate =
  year :: "int option"
  month :: "int option"
  day :: "int option"

record position =
  title :: "jsstring option"
  description :: "jsstring option"
  employmentType :: "jsstring option"
  start :: "pdate option"
  end' :: "pdate option"
  companyName :: "jsstring option"
  companyId :: "jsstring option"
  companyURL :: "jsstring option"
  companyLogo :: "jsstring option"
  companyStaffCountRange :: "jsstring option"
  companyIndustry :: "jsstring option"
  companyDescription :: "jsstring option"
  companySpecialties :: "jsstring option"

record education =
  degree :: "jsstring option"
  fieldOfStudy :: "jsstring option"
  schoolName :: "jsstring option"
  start :: "pdate option"
  end' :: "pdate option"

record named =
  name :: "jsstring option"

record supportedLocale =
  country :: "jsstring option"

record geo =
  full :: "jsstring option"

record profile =
  summary :: "jsstring option"
  linkedin_public_identifier :: "jsstring option"
  headline :: "jsstring option"
  skills :: "named option list option"
  languages :: "named option list option"
  position :: "position option list option"
  educations :: "education option list option"
  firstName :: "jsstring option"
  lastName :: "jsstring option"
  profilePicture :: "jsstring option"
  isOpenToWork :: "bool option"
  isHiring :: "bool option"
  supportedLocales :: "supportedLocale option list option"
  username :: "jsstring option"
  urn :: "jsstring option"
  geo :: "geo option"

record jobEntry =
  jobTitle :: jsstring
  duration :: jsnum
  dateRange :: jsstring
  description :: jsstring
  employmentType :: jsstring

record experienceEntry =
  company :: jsstring
  companyId :: jsstring
  companyLink :: jsstring
  companyLogo :: jsstring
  companyRange :: jsstring
  companyIndustry :: jsstring
  companyDescription :: jsstring
  companySpecialties :: jsstring
  jobs :: "jobEntry list"

record educationEntry =
  date :: "jsstring option"
  degree :: "jsstring option"
  school :: jsstring

record skillsOut =
  skills :: "jsstring option list"
  details :: "named option list"

record outputRec =
  linkedin_public_identifier :: "jsstring option"
  experiences :: "experienceEntry list"
  years_of_experience :: jsnum
  keywords' :: jsstring
  current_industry :: jsstring
  current_job_title :: jsstring
  current_company :: jsstring
  current_employment_type :: jsstring
  current_company_employee_range :: jsstring
  job_titles :: jsstring
  industries_tag :: jsstring
  educations :: "educationEntry list"
  firstname :: jsstring
  lastname :: jsstring
  profile_pic :: jsstring
  spotlight :: jsstring
  is_open_to_work :: bool
  is_hiring :: bool
  about :: jsstring
  languages :: jsstring
  skills :: "skillsOut option"
  headline :: jsstring
  current_employment_duration :: jsnum
  degrees :: jsstring
  schools :: jsstring
  companies :: jsstring
  public_linkedin_identifier :: jsstring
  linkedin_url :: jsstring
  urn :: "jsstring option"
  location :: jsstring
  profil_details :: profile

datatype error = TypeError | URIError

section \<open>\<open>decodeURI\<close>\<close>

text \<open>
  The standard's \<open>Decode\<close> with the reserved set of \<open>decodeURI\<close>: an escape \<open>%XX\<close> below
  \<open>0x80\<close> is replaced by its character unless that character is reserved; an escape from
  \<open>0x80\<close> on starts a UTF-8 sequence whose continuation bytes must be escapes too, and the
  code point is written in UTF-16.  Anything else after a percent sign is a \<open>URIError\<close>,
  here \<open>None\<close>.
\<close>

definition hexVal :: "16 word \<Rightarrow> nat option" where
  "hexVal c =
     (if 0x30 \<le> c \<and> c \<le> 0x39 then Some (unat c - 48)
      else if 0x41 \<le> c \<and> c \<le> 0x46 then Some (unat c - 55)
      else if 0x61 \<le> c \<and> c \<le> 0x66 then Some (unat c - 87)
      else None)"

fun readEscape :: "jsstring \<Rightarrow> (nat \<times> jsstring) option" where
  "readEscape (p # h1 # h2 # rest) =
     (if p = 0x25
      then (case hexVal h1 of None \<Rightarrow> None
            | Some a \<Rightarrow> (case hexVal h2 of None \<Rightarrow> None | Some b \<Rightarrow> Some (16 * a + b, rest)))
      else None)"
| "readEscape _ = None"

fun readCont :: "nat \<Rightarrow> jsstring \<Rightarrow> (nat list \<times> jsstring) option" where
  "readCont 0 s = Some ([], s)"
| "readCont (Suc n) s =
     (case readEscape s of None \<Rightarrow> None
      | Some (b, r) \<Rightarrow> (case readCont n r of None \<Rightarrow> None | Some (bs, r') \<Rightarrow> Some (b # bs, r')))"

text \<open>The characters \<open>; / ? : @ & = + $ ,\<close> and \<open>#\<close>.\<close>

definition uriReserved :: "nat \<Rightarrow> bool" where
  "uriReserved b = (b \<in> {0x3B, 0x2F, 0x3F, 0x3A, 0x40, 0x26, 0x3D, 0x2B, 0x24, 0x2C, 0x23})"

definition leadingOnes :: "nat \<Rightarrow> nat" where
  "leadingOnes b =
     (if b < 0x80 then 0 else if b < 0xC0 then 1 else if b < 0xE0 then 2
      else if b < 0xF0 then 3 else if b < 0xF8 then 4 else 5)"

definition isCont :: "nat \<Rightarrow> bool" where
  "isCont b = (0x80 \<le> b \<and> b < 0xC0)"

fun utf8CodePoint :: "nat list \<Rightarrow> nat option" where
  "utf8CodePoint [b0, b1] =
     (let v = (b0 mod 32) * 64 + b1 mod 64
      in if isCont b1 \<and> 0x80 \<le> v then Some v else None)"
| "utf8CodePoint [b0, b1, b2] =
     (let v = (b0 mod 16) * 4096 + (b1 mod 64) * 64 + b2 mod 64
      in if isCont b1 \<and> isCont b2 \<and> 0x800 \<le> v \<and> \<not> (0xD800 \<le> v \<and> v \<le> 0xDFFF)
         then Some v else None)"
| "utf8CodePoint [b0, b1, b2, b3] =
     (let v = (b0 mod 8) * 262144 + (b1 mod 64) * 4096 + (b2 mod 64) * 64 + b3 mod 64
      in if isCont b1 \<and> isCont b2 \<and> isCont b3 \<and> 0x10000 \<le> v \<and> v \<le> 0x10FFFF
         then Some v else None)"
| "utf8CodePoint _ = None"

definition utf16 :: "nat \<Rightarrow> jsstring" where
  "utf16 v =
     (if v < 0x10000 then [of_nat v]
      else [of_nat (0xD800 + (v - 0x10000) div 1024), of_nat (0xDC00 + (v - 0x10000) mod 1024)])"

function decodeURI :: "jsstring \<Rightarrow> jsstring option" where
  "decodeURI [] = Some []"
| "decodeURI (c # cs) =
     (if c \<noteq> 0x25 then map_option ((#) c) (decodeURI cs)
      else (case readEscape (c # cs) of None \<Rightarrow> None
            | Some (b, r) \<Rightarrow>
                if b < 0x80
                then map_option ((@) (if uriReserved b then take 3 (c # cs) else [of_nat b]))
                       (decodeURI r)
                else if leadingOnes b = 1 \<or> 4 < leadingOnes b then None
                else (case readCont (leadingOnes b - 1) r of None \<Rightarrow> None
                      | Some (bs, r') \<Rightarrow>
                          (case utf8CodePoint (b # bs) of None \<Rightarrow> None
                           | Some v \<Rightarrow> map_option ((@) (utf16 v)) (decodeURI r')))))"
  by pat_completeness auto
termination
proof -
  have esc: "length r < length s" if "readEscape s = Some (b, r)" for s b r
    using that by (induction s rule: readEscape.induct) (auto split: if_splits option.splits)
  have cont: "length r \<le> length s" if "readCont n s = Some (bs, r)" for n s bs r
    using that
  proof (induction n arbitrary: s bs r)
    case 0
    then show ?case by simp
  next
    case (Suc n)
    then show ?case
      by (fastforce split: option.splits prod.splits dest: esc)
  qed
  show ?thesis
  proof (relation "measure length")
    show "wf (measure length)" by simp
  next
    fix c :: "16 word" and cs
    show "(cs, c # cs) \<in> measure length" by simp
  next
    fix c :: "16 word" and cs x2 b r
    assume "readEscape (c # cs) = Some x2" "(b, r) = x2"
    then show "(r, c # cs) \<in> measure length"
      using esc [of "c # cs" b r] by simp
  next
    fix c :: "16 word" and cs x2 b r x2a bs r'
    assume "readEscape (c # cs) = Some x2" "(b, r) = x2"
      "readCont (leadingOnes b - 1) r = Some x2a" "(bs, r') = x2a"
    then show "(r', c # cs) \<in> measure length"
      using esc [of "c # cs" b r] cont [of "leadingOnes b - 1" r bs r']
      by simp
  qed
qed

section \<open>The helpers of \<open>processProfile\<close>\<close>

text \<open>
  \<open>createDateFromPositionDate\<close>: \<open>None\<close> is the \<open>null\<close> it returns.  A number is falsy when
  it is zero.
\<close>

definition createDateFromPositionDate :: "pdate option \<Rightarrow> jsdate option" where
  "createDateFromPositionDate positionDate =
     (case positionDate of None \<Rightarrow> None
      | Some pd \<Rightarrow>
          (case year pd of None \<Rightarrow> None
           | Some y \<Rightarrow>
               if y = 0 then None
               else
                 (let month = (case month pd of None \<Rightarrow> 6 | Some m \<Rightarrow> if m = 0 then 6 else m - 1);
                      day = (case day pd of None \<Rightarrow> 1 | Some d \<Rightarrow> if d = 0 then 1 else d)
                  in Some (newDate y month day))))"

definition isExcludedPosition :: "position \<Rightarrow> bool" where
  "isExcludedPosition pos =
     (let employmentType =
            (if truthyStr (position.employmentType pos)
             then toLowerCase (the (position.employmentType pos)) else []);
          title = (if truthyStr (title pos) then toLowerCase (the (title pos)) else [])
      in includes' employmentType (js ''intern'') \<or>
         includes' title (js ''stagiaire'') \<or>
         includes' employmentType (js ''volunteer'') \<or>
         includes' title (js (''b'' @ [CHR 0xE9] @ ''n'' @ [CHR 0xE9] @ ''vole'')))"

section \<open>The loop over the positions\<close>

text \<open>\<open>pos.end && createDateFromPositionDate(pos.end) || now\<close>.\<close>

definition endDateOf :: "int \<Rightarrow> position \<Rightarrow> jsdate" where
  "endDateOf now pos =
     (case createDateFromPositionDate (position.end' pos) of None \<Rightarrow> Date now | Some d \<Rightarrow> d)"

text \<open>\<open>Math.max(0, (endDate - startDate) / (1000 * 60 * 60 * 24 * 30))\<close>.\<close>

definition durationMonths :: "jsdate \<Rightarrow> jsdate \<Rightarrow> jsnum" where
  "durationMonths startDate endDate =
     Math_max (Num 0) (num_div (num_sub (valueOf endDate) (valueOf startDate)) 2592000000)"

text \<open>The job entry of one position, built with the instant \<open>now\<close> read in its iteration.\<close>

definition buildJobEntry :: "int \<Rightarrow> position \<Rightarrow> jobEntry" where
  "buildJobEntry now pos =
     (let startDate = createDateFromPositionDate (position.start pos);
          endDate = endDateOf now pos;
          jobDurationMonths =
            (case startDate of None \<Rightarrow> Num 0 | Some sd \<Rightarrow> durationMonths sd endDate);
          dateRange =
            (case startDate of None \<Rightarrow> []
             | Some sd \<Rightarrow>
                 (let startDateStr = toLocaleDateString sd;
                      endDateStr =
                        (if num_lt (valueOf endDate) (valueOf (Date now))
                         then toLocaleDateString endDate else js ''Present'')
                  in startDateStr @ js '' - '' @ endDateStr))
      in \<lparr> jobEntry.jobTitle = orStr (title pos) [],
           jobEntry.duration = Math_round jobDurationMonths,
           jobEntry.dateRange = dateRange,
           jobEntry.description = orStr (position.description pos) [],
           jobEntry.employmentType = orStr (position.employmentType pos) [] \<rparr>)"

text \<open>The set of keywords keeps the order of first insertion.\<close>

definition addWord :: "jsstring list \<Rightarrow> jsstring \<Rightarrow> jsstring list" where
  "addWord kw w = (if w \<in> set kw then kw else kw @ [w])"

definition addWords :: "jsstring list \<Rightarrow> jsstring option \<Rightarrow> jsstring list" where
  "addWords kw x = (if truthyStr x then foldl addWord kw (split_ws (the x)) else kw)"

text \<open>
  The variables the loop changes.  \<open>currentExperienceEntry\<close> is not a component: it is
  \<open>null\<close> as long as \<open>experienceArray\<close> is empty and from then on it is the very object
  last pushed on \<open>experienceArray\<close>, so a push on its \<open>jobs\<close> is a push on the jobs of the
  last element of the array.  \<open>reads\<close> counts the clock reads done.
\<close>

record loopState =
  keywordsSet :: "jsstring list"
  experienceArray :: "experienceEntry list"
  lastCompanyId :: "jsstring option"
  reads :: nat

definition newExperienceEntry :: "position \<Rightarrow> jobEntry \<Rightarrow> experienceEntry" where
  "newExperienceEntry pos jobEntry =
     \<lparr> experienceEntry.company = orStr (companyName pos) (js ''Unknown Company''),
       experienceEntry.companyId = orStr (position.companyId pos) [],
       experienceEntry.companyLink = orStr (companyURL pos) [],
       experienceEntry.companyLogo = orStr (position.companyLogo pos) [],
       experienceEntry.companyRange = orStr (companyStaffCountRange pos) [],
       experienceEntry.companyIndustry = orStr (position.companyIndustry pos) [],
       experienceEntry.companyDescription = orStr (position.companyDescription pos) [],
       experienceEntry.companySpecialties = orStr (position.companySpecialties pos) [],
       experienceEntry.jobs = [jobEntry] \<rparr>"

definition pushJob :: "jobEntry \<Rightarrow> experienceEntry \<Rightarrow> experienceEntry" where
  "pushJob jobEntry e = e \<lparr> experienceEntry.jobs := experienceEntry.jobs e @ [jobEntry] \<rparr>"

text \<open>The body of \<open>positions.forEach\<close>.\<close>

definition positionStep :: "clock \<Rightarrow> loopState \<Rightarrow> position \<Rightarrow> loopState" where
  "positionStep clk st pos =
     (let companyId = orStr (position.companyId pos) [];
          now = clk (reads st);
          jobEntry = buildJobEntry now pos;
          kw = addWords (addWords (keywordsSet st) (title pos)) (position.description pos);
          arr = experienceArray st
      in \<lparr> keywordsSet = kw,
           experienceArray =
             (if Some companyId = lastCompanyId st \<and> arr \<noteq> []
              then butlast arr @ [pushJob jobEntry (last arr)]
              else arr @ [newExperienceEntry pos jobEntry]),
           lastCompanyId = Some companyId,
           reads = Suc (reads st) \<rparr>)"

text \<open>The loop over an array of positions that has no \<open>null\<close> entry.\<close>

definition positionsLoop :: "clock \<Rightarrow> loopState \<Rightarrow> position list \<Rightarrow> loopState" where
  "positionsLoop clk st positions = foldl (positionStep clk) st positions"

section \<open>Years of experience\<close>

text \<open>The body of \<open>relevantPositions.forEach\<close>, on \<open>earliestRelevantStartDate\<close>.\<close>

definition seniorityStep :: "int \<Rightarrow> jsdate option \<Rightarrow> position \<Rightarrow> jsdate option" where
  "seniorityStep now earliest pos =
     (let startDate = createDateFromPositionDate (position.start pos);
          endDate = endDateOf now pos
      in case startDate of None \<Rightarrow> earliest
         | Some sd \<Rightarrow>
             if num_ge (durationMonths sd endDate) (Num 7)
             then (case earliest of None \<Rightarrow> Some sd
                   | Some e \<Rightarrow> if num_lt (valueOf sd) (valueOf e) then Some sd else earliest)
             else earliest)"

definition relevantPositions :: "position list \<Rightarrow> position list" where
  "relevantPositions positions = filter (\<lambda>pos. \<not> isExcludedPosition pos) positions"

definition earliestRelevantStartDate :: "int \<Rightarrow> position list \<Rightarrow> jsdate option" where
  "earliestRelevantStartDate now positions =
     foldl (seniorityStep now) None (relevantPositions positions)"

text \<open>\<open>(now - earliestRelevantStartDate) / (1000 * 60 * 60 * 24 * 365.25)\<close>, rounded, or 99.\<close>

definition yearsOfExperience :: "int \<Rightarrow> position list \<Rightarrow> jsnum" where
  "yearsOfExperience now positions =
     (case earliestRelevantStartDate now positions of
        Some e \<Rightarrow> Math_round (num_div (num_sub (valueOf (Date now)) (valueOf e)) 31557600000)
      | None \<Rightarrow> Num 99)"

section \<open>The remaining fields\<close>

text \<open>\<open>positions.find(pos => !pos.end || !pos.end.year)\<close>.\<close>

definition hasNoEnd :: "position \<Rightarrow> bool" where
  "hasNoEnd pos =
     (case position.end' pos of None \<Rightarrow> True
      | Some e \<Rightarrow> (case year e of None \<Rightarrow> True | Some y \<Rightarrow> y = 0))"

definition currentPosition :: "position list \<Rightarrow> position option" where
  "currentPosition positions = find hasNoEnd positions"

text \<open>\<open>xs.filter(Boolean)\<close> on optional strings keeps the non-empty strings.\<close>

definition filterBoolean :: "jsstring option list \<Rightarrow> jsstring list" where
  "filterBoolean xs = map the (filter truthyStr xs)"

text \<open>\<open>d && d.year ? d.year : null\<close>.\<close>

definition yearOrNull :: "pdate option \<Rightarrow> int option" where
  "yearOrNull d =
     (case d of None \<Rightarrow> None
      | Some pd \<Rightarrow> (case year pd of None \<Rightarrow> None | Some y \<Rightarrow> if y = 0 then None else Some y))"

text \<open>The body of \<open>profile.educations.forEach\<close>: the entry, and whether it is pushed.\<close>

definition educationEntryOf :: "education \<Rightarrow> educationEntry" where
  "educationEntryOf edu =
     (let startYear = yearOrNull (education.start edu);
          endYear = yearOrNull (education.end' edu);
          dateStr =
            (case (startYear, endYear) of
               (Some s, Some e) \<Rightarrow> showInt s @ js '' - '' @ showInt e
             | (Some s, None) \<Rightarrow> js ''Depuis '' @ showInt s
             | (None, Some e) \<Rightarrow> js (''Jusqu'' @ [CHR 0x27, CHR 0xE0] @ '' '') @ showInt e
             | (None, None) \<Rightarrow> []);
          degree = orStr (education.degree edu) [];
          fieldOfStudy = orStr (fieldOfStudy edu) [];
          degreeStr =
            (if degree \<noteq> [] \<and> fieldOfStudy \<noteq> [] then degree @ js '', '' @ fieldOfStudy
             else if degree \<noteq> [] then degree
             else if fieldOfStudy \<noteq> [] then fieldOfStudy
             else [])
      in \<lparr> educationEntry.date = (if dateStr \<noteq> [] then Some dateStr else None),
           educationEntry.degree = (if degreeStr \<noteq> [] then Some degreeStr else None),
           educationEntry.school = orStr (schoolName edu) [] \<rparr>)"

definition keepEducation :: "educationEntry \<Rightarrow> bool" where
  "keepEducation e = (truthyStr (educationEntry.degree e) \<or> school e \<noteq> [])"

text \<open>
  \<open>profile.educations.forEach\<close>: the body starts with \<open>edu.start\<close>, which throws a
  \<open>TypeError\<close> on a \<open>null\<close> entry.
\<close>

fun educationsForEach :: "education option list \<Rightarrow> error + educationEntry list" where
  "educationsForEach [] = Inr []"
| "educationsForEach (None # edus) = Inl TypeError"
| "educationsForEach (Some edu # edus) =
     (case educationsForEach edus of Inl e \<Rightarrow> Inl e
      | Inr es \<Rightarrow>
          Inr (if keepEducation (educationEntryOf edu) then educationEntryOf edu # es else es))"

definition educationsArray :: "profile \<Rightarrow> error + educationEntry list" where
  "educationsArray p =
     (case profile.educations p of None \<Rightarrow> Inr [] | Some edus \<Rightarrow> educationsForEach edus)"

text \<open>
  \<open>xs.map(el => el.name)\<close>: reading a property of a \<open>null\<close> element throws a
  \<open>TypeError\<close>.
\<close>

fun mapName :: "named option list \<Rightarrow> error + jsstring option list" where
  "mapName [] = Inr []"
| "mapName (None # els) = Inl TypeError"
| "mapName (Some el # els) =
     (case mapName els of Inl e \<Rightarrow> Inl e | Inr ns \<Rightarrow> Inr (name el # ns))"

text \<open>
  \<open>profile.supportedLocales[0]?.country\<close>: indexing the absent array throws a
  \<open>TypeError\<close>; the optional chaining covers the missing or \<open>null\<close> first element only.
\<close>

definition localeCountry :: "profile \<Rightarrow> error + jsstring option" where
  "localeCountry p =
     (case supportedLocales p of None \<Rightarrow> Inl TypeError
      | Some [] \<Rightarrow> Inr None
      | Some (None # _) \<Rightarrow> Inr None
      | Some (Some l # _) \<Rightarrow> Inr (country l))"

definition francais :: jsstring where
  "francais = js (''Fran'' @ [CHR 0xE7] @ ''ais'')"

text \<open>The function expression that computes \<open>output.languages\<close>.\<close>

definition languagesField :: "profile \<Rightarrow> error + jsstring" where
  "languagesField p =
     (case profile.languages p of
        Some (l # ls) \<Rightarrow>
          (case mapName (l # ls) of Inl e \<Rightarrow> Inl e
           | Inr langs \<Rightarrow>
               (case localeCountry p of Inl e \<Rightarrow> Inl e
                | Inr c \<Rightarrow>
                    (let languages1 =
                           (if c = Some (js ''FR'') \<and>
                               \<not> (\<exists>lang \<in> set langs. lang \<in> {Some francais, Some (js ''French'')})
                            then langs @ [Some francais] else langs);
                         languages2 =
                           (if c \<in> {Some (js ''US''), Some (js ''EN'')} \<and>
                               \<not> (\<exists>lang \<in> set languages1. lang \<in> {Some (js ''English'')})
                            then languages1 @ [Some (js ''English'')] else languages1)
                     in Inr (joinOpt (js '', '') languages2))))
      | _ \<Rightarrow>
          (case localeCountry p of Inl e \<Rightarrow> Inl e
           | Inr c \<Rightarrow>
               if c = Some (js ''FR'') then Inr francais
               else if c \<in> {Some (js ''US''), Some (js ''EN'')} then Inr (js ''English'')
               else Inr []))"

text \<open>\<open>profile.skills != null ? {skills: ..., details: profile.skills} : {}\<close>.\<close>

definition skillsField :: "profile \<Rightarrow> error + skillsOut option" where
  "skillsField p =
     (case profile.skills p of None \<Rightarrow> Inr None
      | Some els \<Rightarrow>
          (case mapName els of Inl e \<Rightarrow> Inl e
           | Inr ns \<Rightarrow> Inr (Some \<lparr> skillsOut.skills = ns, skillsOut.details = els \<rparr>)))"

text \<open>\<open>output.experiences?.[0]?.jobs?.[0]?.duration || 0\<close>.\<close>

definition currentEmploymentDuration :: "experienceEntry list \<Rightarrow> jsnum" where
  "currentEmploymentDuration es =
     (case es of [] \<Rightarrow> Num 0
      | e # _ \<Rightarrow> (case jobs e of [] \<Rightarrow> Num 0 | j # _ \<Rightarrow> orZero (duration j)))"

text \<open>The keywords of the properties read before the loop.\<close>

definition nameWords :: "jsstring list \<Rightarrow> named option \<Rightarrow> jsstring list" where
  "nameWords kw el = (case el of None \<Rightarrow> kw | Some n \<Rightarrow> addWords kw (name n))"

definition initialKeywords :: "profile \<Rightarrow> jsstring list" where
  "initialKeywords p =
     (let kw1 = addWords [] (summary p);
          kw2 = addWords kw1 (profile.headline p);
          kw3 = (case profile.skills p of None \<Rightarrow> kw2 | Some els \<Rightarrow> foldl nameWords kw2 els)
      in case profile.languages p of None \<Rightarrow> kw3 | Some els \<Rightarrow> foldl nameWords kw3 els)"

section \<open>\<open>processProfile\<close>\<close>

text \<open>\<open>profile.position || []\<close>.\<close>

definition positionEntries :: "profile \<Rightarrow> position option list" where
  "positionEntries p = (case position p of None \<Rightarrow> [] | Some ps \<Rightarrow> ps)"

text \<open>The entries of that array that are objects; all of them, unless one is \<open>null\<close>.\<close>

definition positionsOf :: "profile \<Rightarrow> position list" where
  "positionsOf p = map the (filter (\<lambda>e. e \<noteq> None) (positionEntries p))"

definition initialState :: "profile \<Rightarrow> loopState" where
  "initialState p =
     \<lparr> keywordsSet = initialKeywords p, experienceArray = [], lastCompanyId = None, reads = 0 \<rparr>"

text \<open>
  \<open>positions.forEach\<close>: the body starts with \<open>pos.companyName\<close>, which throws a
  \<open>TypeError\<close> on a \<open>null\<close> entry; the exception leaves \<open>processProfile\<close>.
\<close>

fun positionsForEach :: "clock \<Rightarrow> loopState \<Rightarrow> position option list \<Rightarrow> error + loopState" where
  "positionsForEach clk st [] = Inr st"
| "positionsForEach clk st (None # ps) = Inl TypeError"
| "positionsForEach clk st (Some pos # ps) = positionsForEach clk (positionStep clk st pos) ps"

definition processProfile :: "clock \<Rightarrow> profile \<Rightarrow> error + outputRec" where
  "processProfile clk p =
     (case positionsForEach clk (initialState p) (positionEntries p) of Inl e \<Rightarrow> Inl e
      | Inr st \<Rightarrow>
     (let positions = positionsOf p;
          experiences = experienceArray st;
          relevant = relevantPositions positions;
          now = clk (reads st);
          cur = currentPosition positions
      in case educationsArray p of Inl e \<Rightarrow> Inl e
         | Inr edus \<Rightarrow>
         (case languagesField p of Inl e \<Rightarrow> Inl e
         | Inr langs \<Rightarrow>
         (case skillsField p of Inl e \<Rightarrow> Inl e
          | Inr sk \<Rightarrow>
          (case decodeURI (toString (username p)) of None \<Rightarrow> Inl URIError
           | Some ident \<Rightarrow>
           (case decodeURI (js ''https://linkedin.com/in/'' @ toString (username p)) of
              None \<Rightarrow> Inl URIError
            | Some url \<Rightarrow>
                Inr \<lparr> outputRec.linkedin_public_identifier = profile.linkedin_public_identifier p,
                      outputRec.experiences = experiences,
                      outputRec.years_of_experience = yearsOfExperience now positions,
                      outputRec.keywords' = join (js '' '') (keywordsSet st),
                      outputRec.current_industry =
                        (case cur of None \<Rightarrow> [] | Some c \<Rightarrow> orStr (position.companyIndustry c) []),
                      outputRec.current_job_title =
                        (case cur of None \<Rightarrow> [] | Some c \<Rightarrow> orStr (title c) []),
                      outputRec.current_company =
                        (case cur of None \<Rightarrow> [] | Some c \<Rightarrow> orStr (companyName c) []),
                      outputRec.current_employment_type =
                        (case cur of None \<Rightarrow> [] | Some c \<Rightarrow> orStr (position.employmentType c) []),
                      outputRec.current_company_employee_range =
                        (case cur of None \<Rightarrow> [] | Some c \<Rightarrow> orStr (companyStaffCountRange c) []),
                      outputRec.job_titles = join (js '', '') (filterBoolean (map title relevant)),
                      outputRec.industries_tag =
                        join (js '', '') (filterBoolean (map position.companyIndustry relevant)),
                      outputRec.educations = edus,
                      outputRec.firstname = orStr (firstName p) [],
                      outputRec.lastname = orStr (lastName p) [],
                      outputRec.profile_pic = orStr (profilePicture p) [],
                      outputRec.spotlight =
                        (if isOpenToWork p = Some True then js ''Open to work'' else []),
                      outputRec.is_open_to_work =
                        (case isOpenToWork p of None \<Rightarrow> False | Some b \<Rightarrow> b),
                      outputRec.is_hiring = (case isHiring p of None \<Rightarrow> False | Some b \<Rightarrow> b),
                      outputRec.about = orStr (summary p) [],
                      outputRec.languages = langs,
                      outputRec.skills = sk,
                      outputRec.headline = orStr (profile.headline p) [],
                      outputRec.current_employment_duration = currentEmploymentDuration experiences,
                      outputRec.degrees =
                        joinOpt (js '', '') (map educationEntry.degree edus),
                      outputRec.schools = join (js '', '') (map school edus),
                      outputRec.companies = join (js '','') (map company experiences),
                      outputRec.public_linkedin_identifier = ident,
                      outputRec.linkedin_url = url,
                      outputRec.urn = profile.urn p,
                      outputRec.location =
                        (case geo p of None \<Rightarrow> [] | Some g \<Rightarrow> orStr (full g) []),
                      outputRec.profil_details = p \<rparr>))))))"

section \<open>Inputs used in the examples\<close>

definition emptyDate :: pdate where
  "emptyDate = \<lparr> year = None, month = None, day = None \<rparr>"

definition emptyPosition :: position where
  "emptyPosition =
     \<lparr> position.title = None, position.description = None, position.employmentType = None,
       position.start = None, position.end' = None, position.companyName = None,
       position.companyId = None, position.companyURL = None, position.companyLogo = None,
       position.companyStaffCountRange = None, position.companyIndustry = None,
       position.companyDescription = None, position.companySpecialties = None \<rparr>"

definition internTitle :: position where
  "internTitle = emptyPosition \<lparr> title := Some (js ''Software Intern'') \<rparr>"

text \<open>The lower-cased field, or the empty string for an absent one.\<close>

definition lowerOf :: "jsstring option \<Rightarrow> jsstring" where
  "lowerOf x = (case x of None \<Rightarrow> [] | Some s \<Rightarrow> toLowerCase s)"

definition benevole :: jsstring where
  "benevole = js (''b'' @ [CHR 0xE9] @ ''n'' @ [CHR 0xE9] @ ''vole'')"

text \<open>
  The exclusion rule in the words of the specification: one of the four words occurs in
  the lower-cased employment type or in the lower-cased title.
\<close>

definition specExcluded :: "position \<Rightarrow> bool" where
  "specExcluded pos =
     list_ex (\<lambda>w. includes' (lowerOf (position.employmentType pos)) w \<or>
                  includes' (lowerOf (title pos)) w)
       [js ''intern'', js ''stagiaire'', js ''volunteer'', benevole]"

definition futureEnd :: position where
  "futureEnd = emptyPosition
     \<lparr> position.start := Some \<lparr> year = Some 2020, month = Some 1, day = None \<rparr>,
       position.end' := Some \<lparr> year = Some 2030, month = Some 1, day = None \<rparr> \<rparr>"

definition pastEnd :: position where
  "pastEnd = emptyPosition
     \<lparr> position.start := Some \<lparr> year = Some 2020, month = Some 1, day = None \<rparr>,
       position.end' := Some \<lparr> year = Some 2022, month = Some 3, day = None \<rparr> \<rparr>"

text \<open>
  Date reconstruction in the words of the specification: no date when the year is absent
  or zero; otherwise the date of that year, of the given one-based month, or July, the
  month 7, when the month is absent or zero, and of the given day, or the first when the
  day is absent or zero.
\<close>

definition specDate :: "pdate option \<Rightarrow> jsdate option" where
  "specDate d =
     (case d of None \<Rightarrow> None
      | Some pd \<Rightarrow>
          if year pd = None \<or> year pd = Some 0 then None
          else Some (newDate (the (year pd))
                      ((if month pd = None \<or> month pd = Some 0 then 7 else the (month pd)) - 1)
                      (if day pd = None \<or> day pd = Some 0 then 1 else the (day pd))))"

text \<open>
  The positions left out of the seniority: the lower-cased employment type contains
  \<open>intern\<close> or \<open>volunteer\<close>, or the lower-cased title contains \<open>stagiaire\<close> or \<open>benevole\<close>
  (spelt with its two acute accents).
\<close>

definition leftOut :: "position \<Rightarrow> bool" where
  "leftOut pos =
     (includes' (lowerOf (position.employmentType pos)) (js ''intern'') \<or>
      includes' (lowerOf (position.employmentType pos)) (js ''volunteer'') \<or>
      includes' (lowerOf (title pos)) (js ''stagiaire'') \<or>
      includes' (lowerOf (title pos)) benevole)"

text \<open>
  The start instant of a position that counts for the seniority, in the words of the
  specification: the position is not left out, its start date resolves to a valid date,
  and its duration, from the start to the end date, or to \<open>now\<close> when no end date
  resolves, in months of 30 days and not below zero, is at least 7.
\<close>

definition qualifyingStart :: "int \<Rightarrow> position \<Rightarrow> int option" where
  "qualifyingStart now pos =
     (if leftOut pos then None
      else case specDate (position.start pos) of
             Some (Date s) \<Rightarrow>
               (case (case specDate (position.end' pos) of None \<Rightarrow> Date now | Some d \<Rightarrow> d) of
                  Date e \<Rightarrow>
                    if (7 :: rat) \<le> max 0 (of_int (e - s) / of_int (30 * msPerDay)) then Some s
                    else None
                | InvalidDate \<Rightarrow> None)
           | _ \<Rightarrow> None)"

definition qualifyingStarts :: "int \<Rightarrow> position list \<Rightarrow> int list" where
  "qualifyingStarts now positions = List.map_filter (qualifyingStart now) positions"

text \<open>The running minimum kept in \<open>earliestRelevantStartDate\<close>.\<close>

definition minStep :: "int option \<Rightarrow> int \<Rightarrow> int option" where
  "minStep a s = (case a of None \<Rightarrow> Some s | Some x \<Rightarrow> if s < x then Some s else Some x)"

definition emptyProfile :: profile where
  "emptyProfile =
     \<lparr> profile.summary = None, profile.linkedin_public_identifier = None,
       profile.headline = None, profile.skills = None, profile.languages = None,
       profile.position = None, profile.educations = None, profile.firstName = None,
       profile.lastName = None, profile.profilePicture = None, profile.isOpenToWork = None,
       profile.isHiring = None, profile.supportedLocales = None, profile.username = None,
       profile.urn = None, profile.geo = None \<rparr>"

definition baseProfile :: profile where
  "baseProfile = emptyProfile
     \<lparr> profile.supportedLocales := Some [], profile.username := Some (js ''jane''),
       profile.urn := Some (js ''urn:1'') \<rparr>"

definition futureJob :: position where
  "futureJob = emptyPosition
     \<lparr> position.start := Some \<lparr> year = Some 2030, month = Some 1, day = None \<rparr>,
       position.end' := Some \<lparr> year = Some 2031, month = Some 1, day = None \<rparr> \<rparr>"

definition futureProfile :: profile where
  "futureProfile = baseProfile \<lparr> profile.position := Some [Some futureJob] \<rparr>"

definition pastProfile :: profile where
  "pastProfile = baseProfile \<lparr> profile.position := Some [Some pastEnd] \<rparr>"

definition newYearJob :: position where
  "newYearJob = emptyPosition
     \<lparr> position.start := Some \<lparr> year = Some 2026, month = Some 1, day = Some 1 \<rparr> \<rparr>"

definition newYearProfile :: profile where
  "newYearProfile = baseProfile \<lparr> profile.position := Some [Some newYearJob] \<rparr>"

definition noLocalesProfile :: profile where
  "noLocalesProfile = emptyProfile
     \<lparr> profile.username := Some (js ''jane''), profile.urn := Some (js ''urn:1'') \<rparr>"

definition badNameNoLocales :: profile where
  "badNameNoLocales = emptyProfile
     \<lparr> profile.username := Some (js ''%''), profile.urn := Some (js ''urn:1'') \<rparr>"

definition badNameProfile :: profile where
  "badNameProfile = baseProfile \<lparr> profile.username := Some (js ''100%'') \<rparr>"

text \<open>The elements of an optional array; none when the array is absent.\<close>

definition arrayOf :: "'a list option \<Rightarrow> 'a list" where
  "arrayOf x = (case x of None \<Rightarrow> [] | Some xs \<Rightarrow> xs)"

text \<open>The company id the loop compares: \<open>pos.companyId || ''\<close>.\<close>

definition companyIdOf :: "position \<Rightarrow> jsstring" where
  "companyIdOf pos = orStr (position.companyId pos) []"

text \<open>
  The positions processed from the clock read number \<open>k\<close> on, each with the instant read
  in its iteration.
\<close>

definition timed :: "clock \<Rightarrow> nat \<Rightarrow> position list \<Rightarrow> (int \<times> position) list" where
  "timed clk k ps = zip (map clk [k..<k + length ps]) ps"

definition jobOf :: "int \<times> position \<Rightarrow> jobEntry" where
  "jobOf x = buildJobEntry (fst x) (snd x)"

text \<open>
  The experience group of a block of positions: the employer data of the first position
  of the block, each the empty string when absent and the company name
  \<open>Unknown Company\<close> when absent, and the job entries of all the positions of the block
  in their order.
\<close>

definition groupOf :: "(int \<times> position) list \<Rightarrow> experienceEntry" where
  "groupOf b =
     (let first = snd (hd b)
      in \<lparr> experienceEntry.company = orStr (companyName first) (js ''Unknown Company''),
           experienceEntry.companyId = orStr (position.companyId first) [],
           experienceEntry.companyLink = orStr (companyURL first) [],
           experienceEntry.companyLogo = orStr (position.companyLogo first) [],
           experienceEntry.companyRange = orStr (companyStaffCountRange first) [],
           experienceEntry.companyIndustry = orStr (position.companyIndustry first) [],
           experienceEntry.companyDescription = orStr (position.companyDescription first) [],
           experienceEntry.companySpecialties = orStr (position.companySpecialties first) [],
           experienceEntry.jobs = map jobOf b \<rparr>)"

text \<open>
  The blocks cut a list of positions by adjacency: they are not empty, together they are
  the list, the positions of a block have one company id, and the last position of a
  block and the first of the next have different company ids.
\<close>

definition grouped :: "(int \<times> position) list \<Rightarrow> (int \<times> position) list list \<Rightarrow> bool" where
  "grouped xs blocks \<longleftrightarrow>
     concat blocks = xs \<and>
     (\<forall>b \<in> set blocks. b \<noteq> [] \<and> (\<forall>x \<in> set b. companyIdOf (snd x) = companyIdOf (snd (hd b)))) \<and>
     successively (\<lambda>b b'. companyIdOf (snd (last b)) \<noteq> companyIdOf (snd (hd b'))) blocks"

text \<open>The three positions of the grouping example of the specification.\<close>

definition specPositions :: "position list" where
  "specPositions =
     [emptyPosition \<lparr> position.title := Some (js ''Eng''), position.companyId := Some (js ''A'') \<rparr>,
      emptyPosition \<lparr> position.title := Some (js ''Sr Eng''), position.companyId := Some (js ''A'') \<rparr>,
      emptyPosition \<lparr> position.title := Some (js ''Lead''), position.companyId := Some (js ''B'') \<rparr>]"

definition specProfile :: profile where
  "specProfile = baseProfile \<lparr> profile.position := Some (map Some specPositions) \<rparr>"

definition acmeJob :: position where
  "acmeJob = emptyPosition
     \<lparr> position.companyName := Some (js ''Acme''), position.companyId := Some (js ''A'') \<rparr>"

definition initechJob :: position where
  "initechJob = emptyPosition \<lparr> position.companyName := Some (js ''Initech'') \<rparr>"

definition globexJob :: position where
  "globexJob = emptyPosition \<lparr> position.companyName := Some (js ''Globex'') \<rparr>"

definition hooliJob :: position where
  "hooliJob = emptyPosition
     \<lparr> position.companyName := Some (js ''Hooli''), position.companyId := Some (js ''H'') \<rparr>"

definition noIdProfile :: profile where
  "noIdProfile = baseProfile
     \<lparr> profile.position :=
         Some [Some acmeJob, Some initechJob, Some globexJob, Some hooliJob] \<rparr>"

definition internJob :: position where
  "internJob = emptyPosition
     \<lparr> position.employmentType := Some (js ''Internship''),
       position.start := Some \<lparr> year = Some 2010, month = Some 1, day = None \<rparr>,
       position.end' := Some \<lparr> year = Some 2012, month = Some 1, day = None \<rparr> \<rparr>"

definition shortJob :: position where
  "shortJob = emptyPosition
     \<lparr> position.start := Some \<lparr> year = Some 2015, month = Some 1, day = None \<rparr>,
       position.end' := Some \<lparr> year = Some 2015, month = Some 3, day = None \<rparr> \<rparr>"

definition careerProfile :: profile where
  "careerProfile = baseProfile
     \<lparr> profile.position := Some [Some pastEnd, Some shortJob, Some internJob] \<rparr>"

definition twoJobsProfile :: profile where
  "twoJobsProfile = baseProfile \<lparr> profile.position := Some [Some pastEnd, Some shortJob] \<rparr>"

definition currentJob :: position where
  "currentJob = emptyPosition
     \<lparr> position.start := Some \<lparr> year = Some 2020, month = Some 1, day = None \<rparr> \<rparr>"

definition twoCurrentProfile :: profile where
  "twoCurrentProfile = baseProfile
     \<lparr> profile.position := Some [Some currentJob, Some currentJob] \<rparr>"

text \<open>A clock that advances by 365.25 days from one read to the next.\<close>

definition yearlyClock :: clock where
  "yearlyClock k = 1793664000000 + int k * 31557600000"

text \<open>A clock that returns the same instant at every read.\<close>

definition steadyClock :: "int \<Rightarrow> clock" where
  "steadyClock t k = t"

text \<open>
  A clock that advances by one millisecond after its first read, to the instant 210 days
  after the first of January 2026.
\<close>

definition tickingClock :: clock where
  "tickingClock k = (if k = 0 then 1785369599999 else 1785369600000)"

section \<open>Properties\<close>

subsection \<open>Substring search\<close>

lemma startsWith_iff: "startsWith s pat \<longleftrightarrow> (\<exists>post. s = pat @ post)"
  by (induction s pat rule: startsWith.induct) auto

lemma includes'_iff: "includes' s pat \<longleftrightarrow> (\<exists>pre post. s = pre @ pat @ post)"
proof (induction s)
  case Nil
  then show ?case by simp
next
  case (Cons c cs)
  have "(\<exists>pre post. c # cs = pre @ pat @ post) \<longleftrightarrow>
        (\<exists>post. c # cs = pat @ post) \<or> (\<exists>pre post. cs = pre @ pat @ post)"
    by (auto simp: Cons_eq_append_conv)
  with Cons show ?case by (simp add: startsWith_iff)
qed

subsection \<open>Date reconstruction\<close>

text \<open>
  C8.  For a partial date, \<open>createDateFromPositionDate\<close> returns \<open>null\<close> exactly when the
  year is absent or zero.  Otherwise it builds the date of that year with the month taken
  as July (the one-based 7, passed on as the zero-based 6) when the month is absent or
  zero and one less than the given month else, and with the day 1 when the day is absent
  or zero.  The partial date with the year 2020 only gives the first of July 2020.
\<close>

theorem C8_createDate:
  "(createDateFromPositionDate (Some pd) = None \<longleftrightarrow> year pd = None \<or> year pd = Some 0) \<and>
   (\<forall>y. year pd = Some y \<and> y \<noteq> 0 \<longrightarrow>
      createDateFromPositionDate (Some pd) =
        Some (newDate y
               ((if month pd = None \<or> month pd = Some 0 then 7 else the (month pd)) - 1)
               (if day pd = None \<or> day pd = Some 0 then 1 else the (day pd)))) \<and>
   createDateFromPositionDate (Some (emptyDate \<lparr> year := Some 2020 \<rparr>)) = Some (Date 1593561600000) \<and>
   yearFromDay (1593561600000 div msPerDay) = 2020 \<and>
   monthFromDay (1593561600000 div msPerDay) = 6 \<and>
   dateFromDay (1593561600000 div msPerDay) = 1"
proof -
  have a: "createDateFromPositionDate (Some pd) = None \<longleftrightarrow> year pd = None \<or> year pd = Some 0"
    by (simp add: createDateFromPositionDate_def Let_def split: option.splits)
  have b: "\<forall>y. year pd = Some y \<and> y \<noteq> 0 \<longrightarrow>
      createDateFromPositionDate (Some pd) =
        Some (newDate y
               ((if month pd = None \<or> month pd = Some 0 then 7 else the (month pd)) - 1)
               (if day pd = None \<or> day pd = Some 0 then 1 else the (day pd)))"
    by (auto simp add: createDateFromPositionDate_def Let_def split: option.splits)
  have c: "createDateFromPositionDate (Some (emptyDate \<lparr> year := Some 2020 \<rparr>))
             = Some (Date 1593561600000)"
    by (simp add: createDateFromPositionDate_def emptyDate_def newDate_def makeDay_def
        dayFromYear_def inLeapYear_def monthStart_def timeClip_def msPerDay_def Let_def)
  have d: "yearFromDay (1593561600000 div msPerDay) = 2020"
    by (simp add: yearFromDay_def dayFromYear_def msPerDay_def Let_def)
  have e: "monthFromDay (1593561600000 div msPerDay) = 6"
    by (simp add: monthFromDay_def yearFromDay_def dayFromYear_def msPerDay_def
        inLeapYear_def monthStart_def Let_def)
  have f: "dateFromDay (1593561600000 div msPerDay) = 1"
    by code_simp
  from a b c d e f show ?thesis by blast
qed

theorem C8_createDate_witness:
  "createDateFromPositionDate (Some \<lparr> year = Some 2021, month = Some 3, day = Some 0 \<rparr>)
     = Some (Date 1614556800000) \<and>
   createDateFromPositionDate (Some \<lparr> year = Some 0, month = Some 3, day = Some 9 \<rparr>) = None"
  using C8_createDate [of "\<lparr> year = Some 2021, month = Some 3, day = Some 0 \<rparr>"]
    C8_createDate [of "\<lparr> year = Some 0, month = Some 3, day = Some 9 \<rparr>"]
  by (simp add: newDate_def makeDay_def
        dayFromYear_def inLeapYear_def monthStart_def timeClip_def msPerDay_def Let_def)

subsection \<open>Excluded positions\<close>

lemma lowered: "(if truthyStr x then toLowerCase (the x) else []) = lowerOf x"
  by (cases x) (auto simp: truthyStr_def lowerOf_def toLowerCase_def)

text \<open>
  C2, as the specification words it, fails: a position whose title is
  \<open>Software Intern\<close> and that has no employment type contains the word \<open>intern\<close> in its
  lower-cased title, and \<open>isExcludedPosition\<close> keeps it.
\<close>

theorem C2_counterexample: "specExcluded internTitle \<and> \<not> isExcludedPosition internTitle"
  by code_simp

text \<open>
  C2, amended.  A position is excluded exactly when its lower-cased employment type
  contains \<open>intern\<close> or \<open>volunteer\<close>, or its lower-cased title contains \<open>stagiaire\<close> or
  \<open>benevole\<close> (spelt with its two acute accents), each as a substring at any place.
\<close>

theorem C2_excluded:
  "isExcludedPosition pos \<longleftrightarrow>
     (\<exists>pre post. lowerOf (position.employmentType pos) = pre @ js ''intern'' @ post) \<or>
     (\<exists>pre post. lowerOf (title pos) = pre @ js ''stagiaire'' @ post) \<or>
     (\<exists>pre post. lowerOf (position.employmentType pos) = pre @ js ''volunteer'' @ post) \<or>
     (\<exists>pre post. lowerOf (title pos) = pre @ benevole @ post)"
  unfolding isExcludedPosition_def Let_def lowered includes'_iff benevole_def ..

theorem C2_excluded_witness:
  "isExcludedPosition (emptyPosition \<lparr> position.employmentType := Some (js ''Internship'') \<rparr>)"
proof -
  have "lowerOf (position.employmentType
          (emptyPosition \<lparr> position.employmentType := Some (js ''Internship'') \<rparr>))
        = [] @ js ''intern'' @ js ''ship''"
    by code_simp
  then show ?thesis
    using C2_excluded [of "emptyPosition \<lparr> position.employmentType := Some (js ''Internship'') \<rparr>"]
    by blast
qed

subsection \<open>The date range of a job entry\<close>

text \<open>
  C3, as stated, fails: a position from January 2020 to January 2030, processed on the
  third of November 2026, has a start date and an end date that both resolve, and its
  date range ends in \<open>Present\<close>, not in \<open>Jan 2030\<close>.
\<close>

theorem C3_counterexample:
  "createDateFromPositionDate (position.start futureEnd) = Some (Date 1577836800000) \<and>
   createDateFromPositionDate (position.end' futureEnd) = Some (Date 1893456000000) \<and>
   dateRange (buildJobEntry 1793664000000 futureEnd) = js ''Jan 2020 - Present'' \<and>
   dateRange (buildJobEntry 1793664000000 futureEnd) \<noteq>
     toLocaleDateString (Date 1577836800000) @ js '' - '' @ toLocaleDateString (Date 1893456000000)"
  by code_simp

text \<open>
  C3, amended.  When the start date does not resolve the date range is empty.  When it
  does, the date range is the formatted start date, \<open>" - "\<close> and then the formatted end
  date if the position has an end date that resolves to an instant earlier than the
  \<open>now\<close> of the iteration, and \<open>Present\<close> in every other case (no end date, an end date
  that does not resolve, or one that is not earlier than \<open>now\<close>).
\<close>

theorem C3_dateRange:
  "(createDateFromPositionDate (position.start pos) = None \<longrightarrow>
      dateRange (buildJobEntry now pos) = []) \<and>
   (createDateFromPositionDate (position.start pos) = Some sd \<and>
    createDateFromPositionDate (position.end' pos) = Some (Date e) \<and> e < now \<longrightarrow>
      dateRange (buildJobEntry now pos) =
        toLocaleDateString sd @ js '' - '' @ toLocaleDateString (Date e)) \<and>
   (createDateFromPositionDate (position.start pos) = Some sd \<and>
    \<not> (\<exists>e. createDateFromPositionDate (position.end' pos) = Some (Date e) \<and> e < now) \<longrightarrow>
      dateRange (buildJobEntry now pos) = toLocaleDateString sd @ js '' - '' @ js ''Present'')"
proof (intro conjI impI)
  assume "createDateFromPositionDate (position.start pos) = None"
  then show "dateRange (buildJobEntry now pos) = []"
    by (simp add: buildJobEntry_def Let_def)
next
  assume "createDateFromPositionDate (position.start pos) = Some sd \<and>
    createDateFromPositionDate (position.end' pos) = Some (Date e) \<and> e < now"
  then show "dateRange (buildJobEntry now pos) =
        toLocaleDateString sd @ js '' - '' @ toLocaleDateString (Date e)"
    by (simp add: buildJobEntry_def Let_def endDateOf_def)
next
  assume a: "createDateFromPositionDate (position.start pos) = Some sd \<and>
    \<not> (\<exists>e. createDateFromPositionDate (position.end' pos) = Some (Date e) \<and> e < now)"
  have "\<not> num_lt (valueOf (endDateOf now pos)) (valueOf (Date now))"
  proof (cases "createDateFromPositionDate (position.end' pos)")
    case None
    then show ?thesis by (simp add: endDateOf_def)
  next
    case (Some d)
    with a show ?thesis by (cases d) (auto simp: endDateOf_def)
  qed
  with a show "dateRange (buildJobEntry now pos) = toLocaleDateString sd @ js '' - '' @ js ''Present''"
    by (simp add: buildJobEntry_def Let_def)
qed

theorem C3_dateRange_witness:
  "dateRange (buildJobEntry 1793664000000 pastEnd) = js ''Jan 2020 - Mar 2022'' \<and>
   dateRange (buildJobEntry 1793664000000 (pastEnd \<lparr> position.end' := None \<rparr>)) = js ''Jan 2020 - Present'' \<and>
   dateRange (buildJobEntry 1793664000000 emptyPosition) = []"
proof -
  have s: "createDateFromPositionDate (position.start pastEnd) = Some (Date 1577836800000)"
    by code_simp
  have e: "createDateFromPositionDate (position.end' pastEnd) = Some (Date 1646092800000)"
    by code_simp
  have f1: "toLocaleDateString (Date 1577836800000) = js ''Jan 2020''" by code_simp
  have f2: "toLocaleDateString (Date 1646092800000) = js ''Mar 2022''" by code_simp
  have j: "js ''Jan 2020'' @ js '' - '' @ js ''Mar 2022'' = js ''Jan 2020 - Mar 2022''"
    by (simp add: js_def)
  have j2: "js ''Jan 2020'' @ js '' - '' @ js ''Present'' = js ''Jan 2020 - Present''"
    by (simp add: js_def)
  have d: "(1577836800000::int) < 1793664000000 \<and> (1646092800000::int) < 1793664000000" by simp
  have w1: "dateRange (buildJobEntry 1793664000000 pastEnd) =
      toLocaleDateString (Date 1577836800000) @ js '' - '' @ toLocaleDateString (Date 1646092800000)"
    using C3_dateRange [of pastEnd 1793664000000 "Date 1577836800000" 1646092800000] s e d
    by blast
  have s2: "createDateFromPositionDate (position.start (pastEnd \<lparr> position.end' := None \<rparr>))
       = Some (Date 1577836800000)"
    by code_simp
  have e2: "createDateFromPositionDate (position.end' (pastEnd \<lparr> position.end' := None \<rparr>)) = None"
    by code_simp
  have w2: "dateRange (buildJobEntry 1793664000000 (pastEnd \<lparr> position.end' := None \<rparr>)) =
      toLocaleDateString (Date 1577836800000) @ js '' - '' @ js ''Present''"
    using C3_dateRange [of "pastEnd \<lparr> position.end' := None \<rparr>" 1793664000000
        "Date 1577836800000" 0] s2 e2
    by (metis option.distinct(1))
  have s3: "createDateFromPositionDate (position.start emptyPosition) = None"
    by code_simp
  have w3: "dateRange (buildJobEntry 1793664000000 emptyPosition) = []"
    using C3_dateRange [of emptyPosition 1793664000000 "Date 0" 0] s3 by blast
  show ?thesis
    unfolding w1 w2 w3 f1 f2 j j2 by simp
qed

subsection \<open>The earliest start date\<close>

lemma minStep_simps:
  "minStep None s = Some s" "minStep (Some x) s = Some (min s x)"
  by (auto simp: minStep_def min_def)

lemma foldl_minStep:
  "foldl minStep a xs =
     (if set_option a \<union> set xs = {} then None else Some (Min (set_option a \<union> set xs)))"
proof (induction xs arbitrary: a)
  case Nil
  then show ?case by (cases a) auto
next
  case (Cons x xs)
  show ?case
  proof (cases a)
    case None
    then show ?thesis by (simp add: Cons minStep_simps)
  next
    case (Some y)
    then show ?thesis
      by (cases "set xs = {}")
        (auto simp add: Cons minStep_simps min.commute min.left_commute)
  qed
qed

lemma durationMonths_Date:
  "num_ge (durationMonths (Date s) (Date e)) (Num 7) \<longleftrightarrow>
     (7 :: rat) \<le> max 0 (of_int (e - s) / of_int (30 * msPerDay))"
  by (simp add: durationMonths_def msPerDay_def)

lemma durationMonths_Invalid:
  "\<not> num_ge (durationMonths InvalidDate ed) (Num 7)"
  "\<not> num_ge (durationMonths sd InvalidDate) (Num 7)"
  by (cases ed; cases sd; simp add: durationMonths_def)+

lemma createDate_specDate: "createDateFromPositionDate d = specDate d"
  by (auto simp add: createDateFromPositionDate_def specDate_def Let_def split: option.splits)

lemma endDateOf_specDate:
  "endDateOf now pos = (case specDate (position.end' pos) of None \<Rightarrow> Date now | Some d \<Rightarrow> d)"
  by (simp add: endDateOf_def createDate_specDate)

lemma isExcludedPosition_leftOut: "isExcludedPosition pos = leftOut pos"
  unfolding isExcludedPosition_def Let_def lowered leftOut_def benevole_def by blast

lemma seniorityStep_qualifying:
  assumes "\<not> isExcludedPosition pos"
  shows "seniorityStep now (map_option Date a) pos =
     map_option Date (case qualifyingStart now pos of None \<Rightarrow> a | Some s \<Rightarrow> minStep a s)"
proof -
  from assms have n: "\<not> leftOut pos" by (simp add: isExcludedPosition_leftOut)
  have q: "qualifyingStart now pos =
      (case createDateFromPositionDate (position.start pos) of
         Some (Date s) \<Rightarrow>
           (case endDateOf now pos of
              Date e \<Rightarrow>
                if (7 :: rat) \<le> max 0 (of_int (e - s) / of_int (30 * msPerDay)) then Some s
                else None
            | InvalidDate \<Rightarrow> None)
       | _ \<Rightarrow> None)"
    unfolding qualifyingStart_def createDate_specDate endDateOf_specDate using n by simp
  show ?thesis
  proof (cases "createDateFromPositionDate (position.start pos)")
    case None
    then show ?thesis by (simp add: seniorityStep_def q Let_def)
  next
    case (Some sd)
    show ?thesis
    proof (cases sd)
      case InvalidDate
      with Some show ?thesis
        by (simp add: seniorityStep_def q Let_def durationMonths_Invalid)
    next
      case (Date s)
      show ?thesis
      proof (cases "endDateOf now pos")
        case InvalidDate
        with Some Date show ?thesis
          by (simp add: seniorityStep_def q Let_def durationMonths_Invalid)
      next
        case (Date e)
        with Some \<open>sd = Date s\<close> show ?thesis
          by (cases a)
            (auto simp add: seniorityStep_def q Let_def durationMonths_Date
              minStep_simps min_def simp del: of_int_diff)
      qed
    qed
  qed
qed

lemma foldl_seniorityStep:
  "foldl (seniorityStep now) (map_option Date a) (relevantPositions ps) =
     map_option Date (foldl minStep a (qualifyingStarts now ps))"
proof (induction ps arbitrary: a)
  case Nil
  then show ?case by (simp add: relevantPositions_def qualifyingStarts_def List.map_filter_simps)
next
  case (Cons pos ps)
  show ?case
  proof (cases "isExcludedPosition pos")
    case True
    then have "qualifyingStart now pos = None"
      by (simp add: qualifyingStart_def isExcludedPosition_leftOut)
    with True Cons [of a] show ?thesis
      by (simp add: relevantPositions_def qualifyingStarts_def List.map_filter_simps)
  next
    case False
    show ?thesis
    proof (cases "qualifyingStart now pos")
      case None
      with False Cons [of a] seniorityStep_qualifying [OF False, of now a] show ?thesis
        by (simp add: relevantPositions_def qualifyingStarts_def List.map_filter_simps)
    next
      case (Some s)
      with False Cons [of "minStep a s"] seniorityStep_qualifying [OF False, of now a] show ?thesis
        by (simp add: relevantPositions_def qualifyingStarts_def List.map_filter_simps)
    qed
  qed
qed

lemma earliest_Min:
  "earliestRelevantStartDate now ps =
     (if qualifyingStarts now ps = [] then None
      else Some (Date (Min (set (qualifyingStarts now ps)))))"
  using foldl_seniorityStep [of now None ps]
  by (simp add: earliestRelevantStartDate_def foldl_minStep)

lemma yearsOfExperience_Min:
  "yearsOfExperience now ps =
     (if qualifyingStarts now ps = [] then Num 99
      else Num (of_int (round (of_int (now - Min (set (qualifyingStarts now ps)))
                  / (1000 * 60 * 60 * 24 * 365.25 :: rat)))))"
  by (simp add: yearsOfExperience_def earliest_Min round_def)

subsection \<open>Fields of the output\<close>

lemma reads_positionsLoop: "reads (positionsLoop clk st ps) = reads st + length ps"
  unfolding positionsLoop_def
  by (induction ps arbitrary: st) (simp_all add: positionStep_def Let_def)

lemma positionsForEach_eq:
  "positionsForEach clk st es =
     (if None \<in> set es then Inl TypeError
      else Inr (positionsLoop clk st (map the (filter (\<lambda>e. e \<noteq> None) es))))"
  by (induction clk st es rule: positionsForEach.induct) (auto simp add: positionsLoop_def)

lemma processProfile_loop:
  assumes "processProfile clk p = Inr out"
  shows "positionsForEach clk (initialState p) (positionEntries p)
           = Inr (positionsLoop clk (initialState p) (positionsOf p))"
proof (cases "None \<in> set (positionEntries p)")
  case True
  then have "processProfile clk p = Inl TypeError"
    by (simp add: processProfile_def positionsForEach_eq)
  with assms show ?thesis by simp
next
  case False
  then show ?thesis by (simp add: positionsForEach_eq positionsOf_def)
qed

lemma processProfile_years:
  assumes "processProfile clk p = Inr out"
  shows "years_of_experience out =
           yearsOfExperience (clk (length (positionsOf p))) (positionsOf p)"
  using assms unfolding processProfile_def processProfile_loop [OF assms]
  by (auto simp add: Let_def reads_positionsLoop initialState_def
      split: sum.splits option.splits)

lemma processProfile_experiences:
  assumes "processProfile clk p = Inr out"
  shows "experiences out = experienceArray (positionsLoop clk (initialState p) (positionsOf p))"
  using assms unfolding processProfile_def processProfile_loop [OF assms]
  by (auto simp add: Let_def split: sum.splits option.splits)

lemma positionsLoop_clock:
  assumes "\<forall>k < length ps. clk (reads st + k) = clk' (reads st + k)"
  shows "positionsLoop clk st ps = positionsLoop clk' st ps"
  using assms
proof (induction ps arbitrary: st)
  case Nil
  then show ?case by (simp add: positionsLoop_def)
next
  case (Cons pos ps)
  from Cons.prems have h: "clk (reads st) = clk' (reads st)" by force
  then have s: "positionStep clk st pos = positionStep clk' st pos"
    by (simp add: positionStep_def)
  have r: "reads (positionStep clk' st pos) = Suc (reads st)"
    by (simp add: positionStep_def Let_def)
  have "\<forall>k < length ps. clk (reads (positionStep clk' st pos) + k)
            = clk' (reads (positionStep clk' st pos) + k)"
    using Cons.prems unfolding r by fastforce
  from Cons.IH [OF this] s show ?case by (simp add: positionsLoop_def)
qed

subsection \<open>The range of \<open>years_of_experience\<close>\<close>

text \<open>
  C4, as stated, fails: on the third of November 2026, a profile whose only position runs
  from January 2030 to January 2031 gets \<open>years_of_experience = -3\<close>.
\<close>

theorem C4_counterexample:
  "map_sum id years_of_experience (processProfile (steadyClock 1793664000000) futureProfile)
     = Inr (Num (- 3))"
  by code_simp

text \<open>
  C4, amended.  Whenever \<open>processProfile\<close> returns, \<open>years_of_experience\<close> is a whole
  number and never \<open>NaN\<close>: it is 99 when no position qualifies, and otherwise it is
  \<open>(now - start) / 365.25 days\<close> rounded to the nearest whole number, for the earliest
  qualifying start date and the instant \<open>now\<close> read for the seniority computation; that
  number is not negative when the earliest qualifying start date is not later than
  \<open>now\<close>.
\<close>

theorem C4_years_of_experience:
  assumes "processProfile clk p = Inr out"
  shows "\<exists>n :: int. years_of_experience out = Num (of_int n) \<and>
     n = (if qualifyingStarts (clk (length (positionsOf p))) (positionsOf p) = [] then 99
          else round
             (of_int (clk (length (positionsOf p))
                      - Min (set (qualifyingStarts (clk (length (positionsOf p))) (positionsOf p))))
              / (1000 * 60 * 60 * 24 * 365.25 :: rat))) \<and>
     (qualifyingStarts (clk (length (positionsOf p))) (positionsOf p) \<noteq> [] \<and>
      Min (set (qualifyingStarts (clk (length (positionsOf p))) (positionsOf p)))
        \<le> clk (length (positionsOf p)) \<longrightarrow> 0 \<le> n)"
proof (cases "qualifyingStarts (clk (length (positionsOf p))) (positionsOf p) = []")
  case True
  then have "years_of_experience out = Num (of_int 99)"
    using processProfile_years [OF assms] by (simp add: yearsOfExperience_Min)
  with True show ?thesis by simp
next
  case False
  define now where "now = clk (length (positionsOf p))"
  define m where "m = Min (set (qualifyingStarts now (positionsOf p)))"
  define n where "n = round (of_int (now - m) / (1000 * 60 * 60 * 24 * 365.25 :: rat))"
  have y: "years_of_experience out = Num (of_int n)"
    using processProfile_years [OF assms] False
    by (simp add: yearsOfExperience_Min n_def m_def now_def)
  have "0 \<le> n" if "m \<le> now"
  proof -
    have "(0 :: rat) \<le> of_int (now - m) / (1000 * 60 * 60 * 24 * 365.25)"
      using that by simp
    then have "round (0 :: rat) \<le> n" unfolding n_def by (rule round_mono)
    then show ?thesis by simp
  qed
  with y False show ?thesis unfolding n_def m_def now_def by simp
qed

theorem C4_years_of_experience_witness:
  "\<not> isl (processProfile (steadyClock 1793664000000) twoJobsProfile) \<and>
   years_of_experience (projr (processProfile (steadyClock 1793664000000) twoJobsProfile)) = Num 7"
proof -
  have a: "\<not> isl (processProfile (steadyClock 1793664000000) twoJobsProfile)" by code_simp
  then have b: "processProfile (steadyClock 1793664000000) twoJobsProfile
      = Inr (projr (processProfile (steadyClock 1793664000000) twoJobsProfile))"
    by simp
  have l: "steadyClock 1793664000000 (length (positionsOf twoJobsProfile)) = 1793664000000"
    by (simp add: steadyClock_def)
  have c: "qualifyingStarts 1793664000000 (positionsOf twoJobsProfile) = [1577836800000]"
    by code_simp
  have r: "round (of_int (1793664000000 - 1577836800000) / (1000 * 60 * 60 * 24 * 365.25 :: rat)) = 7"
    by code_simp
  from C4_years_of_experience [OF b] obtain n :: int where
    "years_of_experience (projr (processProfile (steadyClock 1793664000000) twoJobsProfile))
       = Num (of_int n)"
    "n = round (of_int (1793664000000 - 1577836800000) / (1000 * 60 * 60 * 24 * 365.25 :: rat))"
    unfolding l c by auto
  with r a show ?thesis by simp
qed

subsection \<open>The seniority computation\<close>

text \<open>
  C7.  Let \<open>now\<close> be the instant read after the loop over the positions.  Among the
  positions that are not excluded, whose start date resolves and whose duration (end
  date or \<open>now\<close>, minus start date, in months of 30 days, not below zero) is at least 7,
  take the earliest start date; \<open>qualifyingStarts\<close> lists these start dates, from the
  fields of the positions alone.  If there is one, \<open>years_of_experience\<close> is
  \<open>(now - start) / 365.25 days\<close> rounded to the nearest whole number; otherwise, and so
  for a profile without positions, it is 99.
\<close>

theorem C7_seniority:
  assumes "processProfile clk p = Inr out"
  shows "years_of_experience out =
     (if qualifyingStarts (clk (length (positionsOf p))) (positionsOf p) = [] then Num 99
      else Num (of_int (round
             (of_int (clk (length (positionsOf p))
                      - Min (set (qualifyingStarts (clk (length (positionsOf p))) (positionsOf p))))
              / (1000 * 60 * 60 * 24 * 365.25 :: rat))))) \<and>
     (positionsOf p = [] \<longrightarrow> years_of_experience out = Num 99)"
proof -
  have "qualifyingStarts now [] = []" for now
    by (simp add: qualifyingStarts_def List.map_filter_simps)
  then show ?thesis
    using processProfile_years [OF assms] by (simp add: yearsOfExperience_Min)
qed

theorem C7_seniority_witness:
  "\<not> isl (processProfile (\<lambda>k. 1793664000000) careerProfile) \<and>
   years_of_experience (projr (processProfile (\<lambda>k. 1793664000000) careerProfile)) = Num 7 \<and>
   \<not> isl (processProfile (\<lambda>k. 1793664000000) baseProfile) \<and>
   years_of_experience (projr (processProfile (\<lambda>k. 1793664000000) baseProfile)) = Num 99"
proof -
  have a: "\<not> isl (processProfile (\<lambda>k. 1793664000000) careerProfile)" by code_simp
  then have b: "processProfile (\<lambda>k. 1793664000000) careerProfile
      = Inr (projr (processProfile (\<lambda>k. 1793664000000) careerProfile))"
    by simp
  have c: "qualifyingStarts 1793664000000 (positionsOf careerProfile) = [1577836800000]"
    by code_simp
  have r: "round (of_int (1793664000000 - 1577836800000) / (1000 * 60 * 60 * 24 * 365.25 :: rat)) = 7"
    by code_simp
  have a': "\<not> isl (processProfile (\<lambda>k. 1793664000000) baseProfile)" by code_simp
  then have b': "processProfile (\<lambda>k. 1793664000000) baseProfile
      = Inr (projr (processProfile (\<lambda>k. 1793664000000) baseProfile))"
    by simp
  have p': "positionsOf baseProfile = []" by code_simp
  from C7_seniority [OF b] have
    "years_of_experience (projr (processProfile (\<lambda>k. 1793664000000) careerProfile)) = Num 7"
    unfolding c using r by simp
  moreover from C7_seniority [OF b'] p' have
    "years_of_experience (projr (processProfile (\<lambda>k. 1793664000000) baseProfile)) = Num 99"
    by blast
  ultimately show ?thesis using a a' by blast
qed

subsection \<open>Experience groups\<close>

lemma timed_Nil: "timed clk k [] = []"
  by (simp add: timed_def)

lemma timed_snoc: "timed clk k (ps @ [x]) = timed clk k ps @ [(clk (k + length ps), x)]"
  by (simp add: timed_def)

lemma timed_Cons: "timed clk k (x # ps) = (clk k, x) # timed clk (Suc k) ps"
proof -
  have "[k..<k + length (x # ps)] = k # [Suc k..<Suc k + length ps]"
    by (subst upt_rec) simp
  then show ?thesis by (simp add: timed_def)
qed

lemma length_timed: "length (timed clk k ps) = length ps"
  by (simp add: timed_def)

lemma map_snd_timed: "map snd (timed clk k ps) = ps"
  by (simp add: timed_def)

lemma step_lastCompanyId: "lastCompanyId (positionStep clk st x) = Some (companyIdOf x)"
  by (simp add: positionStep_def Let_def companyIdOf_def)

lemma step_reads: "reads (positionStep clk st x) = Suc (reads st)"
  by (simp add: positionStep_def Let_def)

lemma step_new:
  assumes "Some (companyIdOf x) \<noteq> lastCompanyId st \<or> experienceArray st = []"
  shows "experienceArray (positionStep clk st x) =
           experienceArray st @ [groupOf [(clk (reads st), x)]]"
proof -
  have "groupOf [(clk (reads st), x)]
          = newExperienceEntry x (buildJobEntry (clk (reads st)) x)"
    by (simp add: groupOf_def jobOf_def newExperienceEntry_def Let_def)
  with assms show ?thesis
    by (auto simp add: positionStep_def Let_def companyIdOf_def)
qed

lemma step_join:
  assumes "Some (companyIdOf x) = lastCompanyId st" "experienceArray st = A @ [h]"
  shows "experienceArray (positionStep clk st x) =
           A @ [pushJob (jobOf (clk (reads st), x)) h]"
  using assms by (simp add: positionStep_def Let_def companyIdOf_def jobOf_def)

lemma pushJob_groupOf:
  "b \<noteq> [] \<Longrightarrow> pushJob (jobOf x) (groupOf b) = groupOf (b @ [x])"
  by (simp add: pushJob_def groupOf_def Let_def)

lemma loop_snoc:
  "positionsLoop clk st (ps @ [x]) = positionStep clk (positionsLoop clk st ps) x"
  by (simp add: positionsLoop_def)

lemma loop_Cons:
  "positionsLoop clk st (x # ps) = positionsLoop clk (positionStep clk st x) ps"
  by (simp add: positionsLoop_def)

lemma loop_append:
  "positionsLoop clk st (ps @ qs) = positionsLoop clk (positionsLoop clk st ps) qs"
  by (simp add: positionsLoop_def)

lemma loop_lastCompanyId:
  "ps \<noteq> [] \<Longrightarrow> lastCompanyId (positionsLoop clk st ps) = Some (companyIdOf (last ps))"
  by (cases ps rule: rev_cases) (simp_all add: loop_snoc step_lastCompanyId)

lemma grouped_Nil: "grouped [] []"
  by (simp add: grouped_def)

lemma last_concat:
  assumes "bs \<noteq> []" "last bs \<noteq> []"
  shows "last (concat bs) = last (last bs)"
proof -
  from assms(1) obtain bs' b where "bs = bs' @ [b]" by (cases bs rule: rev_cases) auto
  with assms(2) show ?thesis by simp
qed

lemma groupedI:
  assumes "concat bs = xs"
    and "\<And>b. b \<in> set bs \<Longrightarrow> b \<noteq> []"
    and "\<And>b y. b \<in> set bs \<Longrightarrow> y \<in> set b \<Longrightarrow> companyIdOf (snd y) = companyIdOf (snd (hd b))"
    and "successively (\<lambda>b b'. companyIdOf (snd (last b)) \<noteq> companyIdOf (snd (hd b'))) bs"
  shows "grouped xs bs"
  unfolding grouped_def using assms by blast

lemma groupedD:
  assumes "grouped xs bs"
  shows "concat bs = xs"
    and "\<And>b. b \<in> set bs \<Longrightarrow> b \<noteq> []"
    and "\<And>b y. b \<in> set bs \<Longrightarrow> y \<in> set b \<Longrightarrow> companyIdOf (snd y) = companyIdOf (snd (hd b))"
    and "successively (\<lambda>b b'. companyIdOf (snd (last b)) \<noteq> companyIdOf (snd (hd b'))) bs"
  using assms unfolding grouped_def by blast+


lemma grouped_new:
  assumes "grouped xs bs" "xs \<noteq> [] \<longrightarrow> companyIdOf (snd (last xs)) \<noteq> companyIdOf (snd x)"
  shows "grouped (xs @ [x]) (bs @ [[x]])"
proof (rule groupedI)
  show "concat (bs @ [[x]]) = xs @ [x]"
    using groupedD(1) [OF assms(1)] by simp
next
  fix b assume "b \<in> set (bs @ [[x]])"
  then have "b \<in> set bs \<or> b = [x]" by auto
  then show "b \<noteq> []" using groupedD(2) [OF assms(1)] by blast
next
  fix b y assume "b \<in> set (bs @ [[x]])" "y \<in> set b"
  then have "b \<in> set bs \<and> y \<in> set b \<or> b = [x] \<and> y = x" by auto
  then show "companyIdOf (snd y) = companyIdOf (snd (hd b))"
  proof
    assume "b \<in> set bs \<and> y \<in> set b"
    then show ?thesis using groupedD(3) [OF assms(1), of b y] by simp
  next
    assume "b = [x] \<and> y = x"
    then show ?thesis by simp
  qed
next
  have d: "companyIdOf (snd (last (last bs))) \<noteq> companyIdOf (snd x)" if "bs \<noteq> []"
  proof -
    from that have l: "last bs \<noteq> []" using groupedD(2) [OF assms(1), of "last bs"] by simp
    have c: "concat bs = xs" by (rule groupedD(1) [OF assms(1)])
    from that l have "last (concat bs) = last (last bs)" by (rule last_concat)
    moreover from that l have "concat bs \<noteq> []"
      by (metis concat_eq_Nil_conv last_in_set)
    ultimately show ?thesis using assms(2) c by simp
  qed
  show "successively (\<lambda>b b'. companyIdOf (snd (last b)) \<noteq> companyIdOf (snd (hd b')))
          (bs @ [[x]])"
    unfolding successively_append_iff
    using groupedD(4) [OF assms(1)] d by (cases "bs = []") simp_all
qed


lemma grouped_join:
  assumes "grouped xs (bs @ [b])" "companyIdOf (snd x) = companyIdOf (snd (last xs))"
  shows "grouped (xs @ [x]) (bs @ [b @ [x]])"
proof -
  have c: "concat bs @ b = xs" using groupedD(1) [OF assms(1)] by simp
  have b: "b \<noteq> []" using groupedD(2) [OF assms(1), of b] by simp
  have ub: "companyIdOf (snd y) = companyIdOf (snd (hd b))" if "y \<in> set b" for y
    using groupedD(3) [OF assms(1), of b y] that by simp
  have "last xs = last b" unfolding c [symmetric] using b by simp
  moreover have "companyIdOf (snd (last b)) = companyIdOf (snd (hd b))"
    using ub [of "last b"] b by simp
  ultimately have x: "companyIdOf (snd x) = companyIdOf (snd (hd b))"
    using assms(2) by simp
  show ?thesis
  proof (rule groupedI)
    show "concat (bs @ [b @ [x]]) = xs @ [x]" using c by simp
  next
    fix b' assume "b' \<in> set (bs @ [b @ [x]])"
    then have "b' \<in> set bs \<or> b' = b @ [x]" by auto
    then show "b' \<noteq> []" using groupedD(2) [OF assms(1), of b'] by auto
  next
    fix b' y assume "b' \<in> set (bs @ [b @ [x]])" "y \<in> set b'"
    then have "b' \<in> set bs \<and> y \<in> set b' \<or> b' = b @ [x] \<and> (y \<in> set b \<or> y = x)" by auto
    then show "companyIdOf (snd y) = companyIdOf (snd (hd b'))"
    proof
      assume "b' \<in> set bs \<and> y \<in> set b'"
      then show ?thesis using groupedD(3) [OF assms(1), of b' y] by simp
    next
      assume a: "b' = b @ [x] \<and> (y \<in> set b \<or> y = x)"
      with b have h: "hd b' = hd b" by simp
      from a have "y \<in> set b \<or> y = x" by simp
      then show ?thesis
      proof
        assume "y \<in> set b"
        then show ?thesis unfolding h by (rule ub)
      next
        assume "y = x"
        then show ?thesis unfolding h using x by simp
      qed
    qed
  next
    have "successively (\<lambda>b b'. companyIdOf (snd (last b)) \<noteq> companyIdOf (snd (hd b')))
            (bs @ [b])"
      by (rule groupedD(4) [OF assms(1)])
    then show "successively (\<lambda>b b'. companyIdOf (snd (last b)) \<noteq> companyIdOf (snd (hd b')))
            (bs @ [b @ [x]])"
      unfolding successively_append_iff using b by (cases "bs = []") simp_all
  qed
qed

lemma timed_eq_Nil: "timed clk k ps = [] \<longleftrightarrow> ps = []"
  by (auto simp add: timed_def)

lemma snd_last_timed: "ps \<noteq> [] \<Longrightarrow> snd (last (timed clk k ps)) = last ps"
proof -
  assume "ps \<noteq> []"
  then have "timed clk k ps \<noteq> []" by (simp add: timed_eq_Nil)
  then have "snd (last (timed clk k ps)) = last (map snd (timed clk k ps))"
    by (simp add: last_map)
  then show ?thesis by (simp add: map_snd_timed)
qed

lemma loop_groups:
  assumes "experienceArray st = []"
  shows "\<exists>bs. grouped (timed clk (reads st) ps) bs \<and>
              experienceArray (positionsLoop clk st ps) = map groupOf bs"
proof (induction ps rule: rev_induct)
  case Nil
  show ?case
    using assms grouped_Nil by (simp add: timed_Nil positionsLoop_def)
next
  case (snoc x ps)
  then obtain bs where g: "grouped (timed clk (reads st) ps) bs"
    and e: "experienceArray (positionsLoop clk st ps) = map groupOf bs"
    by blast
  define S where "S = positionsLoop clk st ps"
  define item where "item = (clk (reads st + length ps), x)"
  have r: "reads S = reads st + length ps" by (simp add: S_def reads_positionsLoop)
  have t: "timed clk (reads st) (ps @ [x]) = timed clk (reads st) ps @ [item]"
    by (simp add: timed_snoc item_def)
  have l: "positionsLoop clk st (ps @ [x]) = positionStep clk S x"
    by (simp add: loop_snoc S_def)
  have c: "concat bs = timed clk (reads st) ps" by (rule groupedD(1) [OF g])
  have ne: "ps \<noteq> []" if "bs \<noteq> []"
  proof -
    from that have "last bs \<in> set bs" by simp
    then have "last bs \<noteq> []" by (rule groupedD(2) [OF g])
    with that have "concat bs \<noteq> []" by (metis concat_eq_Nil_conv last_in_set)
    then show ?thesis unfolding c by (simp add: timed_eq_Nil)
  qed
  show ?case
  proof (cases "Some (companyIdOf x) = lastCompanyId S \<and> experienceArray S \<noteq> []")
    case True
    with e have "bs \<noteq> []" by (auto simp add: S_def)
    then obtain bs' b where bs: "bs = bs' @ [b]" by (cases bs rule: rev_cases) auto
    from \<open>bs \<noteq> []\<close> have ps: "ps \<noteq> []" by (rule ne)
    then have "lastCompanyId S = Some (companyIdOf (last ps))"
      unfolding S_def by (rule loop_lastCompanyId)
    with True have "companyIdOf x = companyIdOf (last ps)" by simp
    then have "companyIdOf (snd item) = companyIdOf (snd (last (timed clk (reads st) ps)))"
      by (simp add: item_def snd_last_timed [OF ps])
    with g have g': "grouped (timed clk (reads st) ps @ [item]) (bs' @ [b @ [item]])"
      unfolding bs by (rule grouped_join)
    have b: "b \<noteq> []" using groupedD(2) [OF g, of b] by (simp add: bs)
    have "experienceArray S = map groupOf bs' @ [groupOf b]"
      using e by (simp add: S_def bs)
    with True have "experienceArray (positionStep clk S x) =
        map groupOf bs' @ [pushJob (jobOf (clk (reads S), x)) (groupOf b)]"
      by (simp add: step_join)
    also have "\<dots> = map groupOf (bs' @ [b @ [item]])"
      using pushJob_groupOf [OF b, of item] by (simp add: item_def r)
    finally show ?thesis using g' unfolding l t by blast
  next
    case False
    then have "experienceArray (positionStep clk S x) =
        experienceArray S @ [groupOf [(clk (reads S), x)]]"
      by (intro step_new) auto
    then have e': "experienceArray (positionStep clk S x) = map groupOf (bs @ [[item]])"
      using e by (simp add: S_def item_def reads_positionsLoop)
    have "companyIdOf (snd (last (timed clk (reads st) ps))) \<noteq> companyIdOf (snd item)"
      if "timed clk (reads st) ps \<noteq> []"
    proof -
      from that have ps: "ps \<noteq> []" by (simp add: timed_eq_Nil)
      then have lc: "lastCompanyId S = Some (companyIdOf (last ps))"
        unfolding S_def by (rule loop_lastCompanyId)
      from that c have "bs \<noteq> []" by auto
      with e have "experienceArray S \<noteq> []" by (simp add: S_def)
      with False lc have "companyIdOf x \<noteq> companyIdOf (last ps)" by auto
      then show ?thesis by (simp add: item_def snd_last_timed [OF ps])
    qed
    with g have "grouped (timed clk (reads st) ps @ [item]) (bs @ [[item]])"
      by (intro grouped_new) auto
    with e' show ?thesis unfolding l t by blast
  qed
qed


lemma jobs_groupOf: "jobs (groupOf b) = map jobOf b"
  by (simp add: groupOf_def Let_def)

lemma specPositions_groups:
  assumes "experienceArray st = []"
  shows "map (\<lambda>g. (company g, experienceEntry.companyId g, map jobTitle (jobs g)))
           (experienceArray (positionsLoop clk st specPositions)) =
         [(js ''Unknown Company'', js ''A'', [js ''Eng'', js ''Sr Eng'']),
          (js ''Unknown Company'', js ''B'', [js ''Lead''])]"
  using assms
  by (simp add: specPositions_def positionsLoop_def positionStep_def Let_def emptyPosition_def
      orStr_def js_def pushJob_def newExperienceEntry_def buildJobEntry_def)

lemma experiences_grouped:
  assumes "processProfile clk p = Inr out"
  shows "\<exists>bs. grouped (timed clk 0 (positionsOf p)) bs \<and> experiences out = map groupOf bs"
proof -
  have i: "experienceArray (initialState p) = []" "reads (initialState p) = 0"
    by (simp_all add: initialState_def)
  have e: "experiences out = experienceArray (positionsLoop clk (initialState p) (positionsOf p))"
    by (rule processProfile_experiences [OF assms])
  from loop_groups [OF i(1), of clk "positionsOf p"] show ?thesis
    unfolding i(2) e by blast
qed

lemma experiences_jobs:
  assumes "processProfile clk p = Inr out"
  shows "concat (map jobs (experiences out)) = map jobOf (timed clk 0 (positionsOf p))"
proof -
  from experiences_grouped [OF assms] obtain bs
    where g: "grouped (timed clk 0 (positionsOf p)) bs"
      and m: "experiences out = map groupOf bs"
    by blast
  have "concat (map jobs (experiences out)) = concat (map (map jobOf) bs)"
    unfolding m by (simp add: jobs_groupOf comp_def)
  also have "\<dots> = map jobOf (concat bs)" by (simp add: map_concat)
  finally show ?thesis by (simp add: groupedD(1) [OF g])
qed

text \<open>
  C6.  Whenever \<open>processProfile\<close> returns, the positions, in their order and each with
  the instant read in its iteration, are cut into consecutive non-empty blocks such that
  \<^item> the experience groups are the blocks, in order: a group has the employer data of the
    first position of its block (\<open>groupOf\<close> spells the eight fields out) and the job
    entries of the positions of the block, in order, so that every position gives one
    job entry in one group and the job entries of all groups, read in order, are the job
    entries of the positions;
  \<^item> the positions of a block have the same company id (\<open>pos.companyId || ''\<close>) and the
    last position of a block and the first of the next have different ones: a position
    joins the group of the position before it exactly when their company ids are equal.

  The three positions of the example give two groups: the first, of the company id
  \<open>A\<close>, has the jobs \<open>Eng\<close> and \<open>Sr Eng\<close>, the second, of the company id \<open>B\<close>, the job
  \<open>Lead\<close>, and both have the company name \<open>Unknown Company\<close>.
\<close>

theorem C6_grouping:
  assumes "processProfile clk p = Inr out"
  shows "(\<exists>blocks.
            concat blocks = timed clk 0 (positionsOf p) \<and>
            (\<forall>b \<in> set blocks. b \<noteq> [] \<and>
               (\<forall>x \<in> set b. companyIdOf (snd x) = companyIdOf (snd (hd b)))) \<and>
            successively (\<lambda>b b'. companyIdOf (snd (last b)) \<noteq> companyIdOf (snd (hd b'))) blocks \<and>
            experiences out = map groupOf blocks) \<and>
         concat (map jobs (experiences out)) = map jobOf (timed clk 0 (positionsOf p)) \<and>
         (positionsOf p = specPositions \<longrightarrow>
            map (\<lambda>g. length (jobs g)) (experiences out) = [2, 1] \<and>
            map (\<lambda>g. (company g, experienceEntry.companyId g, map jobTitle (jobs g)))
              (experiences out) =
            [(js ''Unknown Company'', js ''A'', [js ''Eng'', js ''Sr Eng'']),
             (js ''Unknown Company'', js ''B'', [js ''Lead''])])"
proof -
  have i: "experienceArray (initialState p) = []"
    by (simp add: initialState_def)
  have e: "experiences out = experienceArray (positionsLoop clk (initialState p) (positionsOf p))"
    by (rule processProfile_experiences [OF assms])
  from experiences_grouped [OF assms] obtain bs
    where g: "grouped (timed clk 0 (positionsOf p)) bs"
      and m: "experiences out = map groupOf bs"
    by blast
  have j: "concat (map jobs (experiences out)) = map jobOf (timed clk 0 (positionsOf p))"
    by (rule experiences_jobs [OF assms])
  have t: "map (\<lambda>g. (company g, experienceEntry.companyId g, map jobTitle (jobs g)))
              (experiences out) =
            [(js ''Unknown Company'', js ''A'', [js ''Eng'', js ''Sr Eng'']),
             (js ''Unknown Company'', js ''B'', [js ''Lead''])]"
    if "positionsOf p = specPositions"
    unfolding e that by (rule specPositions_groups [OF i])
  have s: "map (\<lambda>g. length (jobs g)) (experiences out) = [2, 1]"
    if "positionsOf p = specPositions"
  proof -
    have "map (\<lambda>g. length (jobs g)) (experiences out)
        = map (\<lambda>x. length (snd (snd x)))
            (map (\<lambda>g. (company g, experienceEntry.companyId g, map jobTitle (jobs g)))
              (experiences out))"
      by (simp add: comp_def)
    then show ?thesis unfolding t [OF that] by simp
  qed
  from g m have "\<exists>blocks.
            concat blocks = timed clk 0 (positionsOf p) \<and>
            (\<forall>b \<in> set blocks. b \<noteq> [] \<and>
               (\<forall>x \<in> set b. companyIdOf (snd x) = companyIdOf (snd (hd b)))) \<and>
            successively (\<lambda>b b'. companyIdOf (snd (last b)) \<noteq> companyIdOf (snd (hd b'))) blocks \<and>
            experiences out = map groupOf blocks"
    unfolding grouped_def by blast
  with j s t show ?thesis by blast
qed

theorem C6_grouping_witness:
  "\<not> isl (processProfile (\<lambda>k. 1793664000000) specProfile) \<and>
   map (\<lambda>g. length (jobs g))
     (experiences (projr (processProfile (\<lambda>k. 1793664000000) specProfile))) = [2, 1] \<and>
   map (\<lambda>g. (company g, experienceEntry.companyId g, map jobTitle (jobs g)))
     (experiences (projr (processProfile (\<lambda>k. 1793664000000) specProfile))) =
     [(js ''Unknown Company'', js ''A'', [js ''Eng'', js ''Sr Eng'']),
      (js ''Unknown Company'', js ''B'', [js ''Lead''])]"
proof -
  have a: "\<not> isl (processProfile (\<lambda>k. 1793664000000) specProfile)" by code_simp
  then have b: "processProfile (\<lambda>k. 1793664000000) specProfile
      = Inr (projr (processProfile (\<lambda>k. 1793664000000) specProfile))"
    by simp
  have p: "positionsOf specProfile = specPositions" by code_simp
  from C6_grouping [OF b] p a show ?thesis by blast
qed

subsection \<open>The clock\<close>

lemma processProfile_clock:
  assumes "\<forall>k \<le> length (positionsOf p). clk k = clk' k"
  shows "processProfile clk p = processProfile clk' p"
proof (cases "None \<in> set (positionEntries p)")
  case True
  then show ?thesis by (simp add: processProfile_def positionsForEach_eq)
next
  case False
  have "\<forall>k < length (positionsOf p). clk (reads (initialState p) + k)
           = clk' (reads (initialState p) + k)"
    using assms by (simp add: initialState_def)
  then have l: "positionsLoop clk (initialState p) (positionsOf p)
              = positionsLoop clk' (initialState p) (positionsOf p)"
    by (rule positionsLoop_clock)
  have n: "clk (reads (positionsLoop clk' (initialState p) (positionsOf p)))
         = clk' (reads (positionsLoop clk' (initialState p) (positionsOf p)))"
    using assms by (simp add: reads_positionsLoop initialState_def)
  have "positionsForEach clk (initialState p) (positionEntries p)
             = Inr (positionsLoop clk (initialState p) (positionsOf p))"
    using False by (simp add: positionsForEach_eq positionsOf_def)
  then have f: "positionsForEach clk (initialState p) (positionEntries p)
             = Inr (positionsLoop clk' (initialState p) (positionsOf p))"
    unfolding l .
  have f': "positionsForEach clk' (initialState p) (positionEntries p)
             = Inr (positionsLoop clk' (initialState p) (positionsOf p))"
    using False by (simp add: positionsForEach_eq positionsOf_def)
  show ?thesis
    unfolding processProfile_def f f' sum.case Let_def n ..
qed

lemma jobOf_timed:
  "map jobOf (timed clk 0 ps) = map (\<lambda>i. buildJobEntry (clk i) (ps ! i)) [0..<length ps]"
  by (rule nth_equalityI) (simp_all add: timed_def jobOf_def)

text \<open>
  C5, as stated, fails: \<open>processProfile\<close> does not keep the first instant it reads.  For
  a profile whose only position started on the first of January 2026 and has no end, a
  clock that advances by one millisecond between the read of the loop and the read of
  the seniority computation gives 1 year of experience, where the first instant alone
  gives 99.
\<close>

theorem C5_counterexample:
  "map_sum id years_of_experience
     (processProfile tickingClock newYearProfile)
     = Inr (Num 1) \<and>
   map_sum id years_of_experience (processProfile (steadyClock 1785369599999) newYearProfile)
     = Inr (Num 99)"
  by code_simp

text \<open>
  C5, amended.  Whenever \<open>processProfile\<close> returns, it has read the clock once in each
  iteration of the loop over the positions and once more for the seniority computation:
  the loop ends after as many reads as there are positions, the job entry of the
  position number \<open>i\<close> is built with the read number \<open>i\<close>, and \<open>years_of_experience\<close> is
  computed with the read that follows those of the loop.  The result is determined by
  the profile and by these reads: a clock that returns the same instants at them gives
  the same result, so when every read returns the same instant the result is a function
  of the profile and of that instant.
\<close>

theorem C5_clock_reads:
  assumes "processProfile clk p = Inr out"
  shows "(\<exists>st. positionsForEach clk (initialState p) (positionEntries p) = Inr st \<and>
            reads st = length (positionsOf p)) \<and>
         concat (map jobs (experiences out)) =
           map (\<lambda>i. buildJobEntry (clk i) (positionsOf p ! i)) [0..<length (positionsOf p)] \<and>
         years_of_experience out =
           yearsOfExperience (clk (length (positionsOf p))) (positionsOf p) \<and>
         (\<forall>clk'. (\<forall>k \<le> length (positionsOf p). clk' k = clk k) \<longrightarrow>
            processProfile clk' p = Inr out)"
proof -
  have r: "reads (positionsLoop clk (initialState p) (positionsOf p)) = length (positionsOf p)"
    by (simp add: reads_positionsLoop initialState_def)
  have a: "\<exists>st. positionsForEach clk (initialState p) (positionEntries p) = Inr st \<and>
            reads st = length (positionsOf p)"
    using processProfile_loop [OF assms] r by simp
  have b: "concat (map jobs (experiences out)) =
           map (\<lambda>i. buildJobEntry (clk i) (positionsOf p ! i)) [0..<length (positionsOf p)]"
    using experiences_jobs [OF assms] by (simp add: jobOf_timed)
  have c: "years_of_experience out =
           yearsOfExperience (clk (length (positionsOf p))) (positionsOf p)"
    by (rule processProfile_years [OF assms])
  have d: "processProfile clk' p = Inr out"
    if "\<forall>k \<le> length (positionsOf p). clk' k = clk k" for clk'
    using processProfile_clock [OF that] assms by simp
  from a b c d show ?thesis by blast
qed

theorem C5_clock_reads_witness:
  "\<not> isl (processProfile yearlyClock twoCurrentProfile) \<and>
   map duration (concat (map jobs (experiences (projr (processProfile yearlyClock twoCurrentProfile)))))
     = [Num 83, Num 95] \<and>
   years_of_experience (projr (processProfile yearlyClock twoCurrentProfile)) = Num 9"
proof -
  have a: "\<not> isl (processProfile yearlyClock twoCurrentProfile)" by code_simp
  then have b: "processProfile yearlyClock twoCurrentProfile
      = Inr (projr (processProfile yearlyClock twoCurrentProfile))"
    by simp
  have j: "map duration
             (map (\<lambda>i. buildJobEntry (yearlyClock i) (positionsOf twoCurrentProfile ! i))
                [0..<length (positionsOf twoCurrentProfile)]) = [Num 83, Num 95]"
    by code_simp
  have y: "yearsOfExperience (yearlyClock (length (positionsOf twoCurrentProfile)))
             (positionsOf twoCurrentProfile) = Num 9"
    by code_simp
  from C5_clock_reads [OF b] have
    "concat (map jobs (experiences (projr (processProfile yearlyClock twoCurrentProfile)))) =
       map (\<lambda>i. buildJobEntry (yearlyClock i) (positionsOf twoCurrentProfile ! i))
         [0..<length (positionsOf twoCurrentProfile)]"
    "years_of_experience (projr (processProfile yearlyClock twoCurrentProfile)) =
       yearsOfExperience (yearlyClock (length (positionsOf twoCurrentProfile)))
         (positionsOf twoCurrentProfile)"
    by blast+
  with j y a show ?thesis by simp
qed

subsection \<open>Exceptions\<close>

lemma mapName_cases:
  "mapName els = (if None \<in> set els then Inl TypeError else Inr (map (\<lambda>el. name (the el)) els))"
  by (induction els rule: mapName.induct) auto

lemma localeCountry_cases:
  "localeCountry p = Inl TypeError \<and> supportedLocales p = None \<or>
   (\<exists>c. localeCountry p = Inr c) \<and> supportedLocales p \<noteq> None"
  by (simp add: localeCountry_def split: option.splits list.splits)

lemma languagesField_raises:
  assumes "supportedLocales p = None \<or> None \<in> set (arrayOf (profile.languages p))"
  shows "languagesField p = Inl TypeError"
proof (cases "profile.languages p")
  case None
  with assms localeCountry_cases [of p] show ?thesis
    by (auto simp add: languagesField_def arrayOf_def)
next
  case (Some ls)
  show ?thesis
  proof (cases ls)
    case Nil
    with Some assms localeCountry_cases [of p] show ?thesis
      by (auto simp add: languagesField_def arrayOf_def)
  next
    case (Cons l ls')
    show ?thesis
    proof (cases "None \<in> set ls")
      case True
      then have "mapName (l # ls') = Inl TypeError"
        unfolding Cons by (subst mapName_cases) simp
      with Some Cons show ?thesis by (simp add: languagesField_def)
    next
      case False
      with assms Some have "localeCountry p = Inl TypeError"
        using localeCountry_cases [of p] by (auto simp add: arrayOf_def)
      moreover from False have "\<exists>ns. mapName (l # ls') = Inr ns"
        unfolding Cons by (subst mapName_cases) simp
      ultimately show ?thesis using Some Cons by (auto simp add: languagesField_def)
    qed
  qed
qed

lemma languagesField_returns:
  assumes "supportedLocales p \<noteq> None" "None \<notin> set (arrayOf (profile.languages p))"
  shows "\<exists>l. languagesField p = Inr l"
proof -
  obtain c where c: "localeCountry p = Inr c"
    using assms(1) localeCountry_cases [of p] by auto
  show ?thesis
  proof (cases "profile.languages p")
    case None
    with c show ?thesis by (simp add: languagesField_def)
  next
    case (Some ls)
    show ?thesis
    proof (cases ls)
      case Nil
      with Some c show ?thesis by (simp add: languagesField_def)
    next
      case (Cons l ls')
      from assms(2) Some Cons obtain ns where "mapName (l # ls') = Inr ns"
        by (simp add: arrayOf_def mapName_cases)
      with Some Cons c show ?thesis by (simp add: languagesField_def Let_def)
    qed
  qed
qed

lemma skillsField_raises:
  assumes "None \<in> set (arrayOf (profile.skills p))"
  shows "skillsField p = Inl TypeError"
proof (cases "profile.skills p")
  case None
  with assms show ?thesis by (simp add: arrayOf_def)
next
  case (Some els)
  with assms have "mapName els = Inl TypeError"
    by (simp add: arrayOf_def mapName_cases)
  with Some show ?thesis by (simp add: skillsField_def)
qed

lemma skillsField_returns:
  assumes "None \<notin> set (arrayOf (profile.skills p))"
  shows "\<exists>s. skillsField p = Inr s"
proof (cases "profile.skills p")
  case None
  then show ?thesis by (simp add: skillsField_def)
next
  case (Some els)
  with assms have "\<exists>ns. mapName els = Inr ns"
    by (simp add: arrayOf_def mapName_cases)
  with Some show ?thesis by (auto simp add: skillsField_def)
qed


lemma decodeURI_prefix:
  assumes "0x25 \<notin> set pre"
  shows "decodeURI (pre @ s) = map_option ((@) pre) (decodeURI s)"
  using assms
proof (induction pre)
  case Nil
  then show ?case by (simp add: option.map_ident)
next
  case (Cons c pre)
  then show ?case by (simp add: option.map_comp comp_def)
qed

lemma linkedin_prefix: "0x25 \<notin> set (js ''https://linkedin.com/in/'')"
  by (simp add: js_def)

lemma educationsForEach_cases:
  "educationsForEach es = Inl TypeError \<and> None \<in> set es \<or>
   (\<exists>r. educationsForEach es = Inr r) \<and> None \<notin> set es"
  by (induction es rule: educationsForEach.induct) auto

lemma educationsArray_cases:
  "educationsArray p = Inl TypeError \<and> None \<in> set (arrayOf (profile.educations p)) \<or>
   (\<exists>r. educationsArray p = Inr r) \<and> None \<notin> set (arrayOf (profile.educations p))"
  using educationsForEach_cases
  by (cases "profile.educations p") (simp_all add: educationsArray_def arrayOf_def)

lemma positionEntries_arrayOf: "positionEntries p = arrayOf (position p)"
  by (simp add: positionEntries_def arrayOf_def)

lemma processProfile_decode:
  assumes "None \<notin> set (arrayOf (position p))" "educationsArray p = Inr eds"
    "languagesField p = Inr l" "skillsField p = Inr sk"
  shows "(processProfile clk p = Inl URIError \<longleftrightarrow> decodeURI (toString (username p)) = None) \<and>
    (\<forall>u. decodeURI (toString (username p)) = Some u \<longrightarrow>
       (\<exists>out. processProfile clk p = Inr out \<and> public_linkedin_identifier out = u \<and>
              linkedin_url out = js ''https://linkedin.com/in/'' @ u))"
proof -
  have d: "decodeURI (js ''https://linkedin.com/in/'' @ toString (username p))
       = map_option ((@) (js ''https://linkedin.com/in/'')) (decodeURI (toString (username p)))"
    by (rule decodeURI_prefix [OF linkedin_prefix])
  have f: "positionsForEach clk (initialState p) (positionEntries p)
             = Inr (positionsLoop clk (initialState p) (positionsOf p))"
    using assms(1) by (simp add: positionsForEach_eq positionsOf_def positionEntries_arrayOf)
  show ?thesis
  proof (cases "decodeURI (toString (username p))")
    case None
    then show ?thesis unfolding processProfile_def f by (simp add: Let_def assms)
  next
    case (Some u)
    then show ?thesis unfolding processProfile_def f by (simp add: Let_def assms d)
  qed
qed

text \<open>
  \<open>processProfile\<close> throws a \<open>TypeError\<close> exactly on the profiles without a
  \<open>supportedLocales\<close> array or with a \<open>null\<close> entry in one of the arrays \<open>position\<close>,
  \<open>educations\<close>, \<open>languages\<close> and \<open>skills\<close>.
\<close>

lemma processProfile_TypeError:
  "processProfile clk p = Inl TypeError \<longleftrightarrow>
     None \<in> set (arrayOf (position p)) \<or> None \<in> set (arrayOf (profile.educations p)) \<or>
     supportedLocales p = None \<or> None \<in> set (arrayOf (profile.languages p)) \<or>
     None \<in> set (arrayOf (profile.skills p))"
proof (cases "None \<in> set (arrayOf (position p))")
  case True
  then have "processProfile clk p = Inl TypeError"
    by (simp add: processProfile_def positionsForEach_eq positionEntries_arrayOf)
  with True show ?thesis by blast
next
  case np: False
  then have f: "positionsForEach clk (initialState p) (positionEntries p)
             = Inr (positionsLoop clk (initialState p) (positionsOf p))"
    by (simp add: positionsForEach_eq positionsOf_def positionEntries_arrayOf)
  show ?thesis
  proof (cases "None \<in> set (arrayOf (profile.educations p))")
    case True
    then have "educationsArray p = Inl TypeError" using educationsArray_cases [of p] by auto
    then have "processProfile clk p = Inl TypeError"
      unfolding processProfile_def f by (simp add: Let_def)
    with True show ?thesis by blast
  next
    case ne: False
    then obtain eds where eds: "educationsArray p = Inr eds"
      using educationsArray_cases [of p] by auto
    show ?thesis
    proof (cases "supportedLocales p = None \<or> None \<in> set (arrayOf (profile.languages p))")
      case True
      then have "languagesField p = Inl TypeError" by (rule languagesField_raises)
      then have "processProfile clk p = Inl TypeError"
        unfolding processProfile_def f by (simp add: Let_def eds)
      with True show ?thesis by blast
    next
      case False
      then obtain l where l: "languagesField p = Inr l"
        using languagesField_returns [of p] by auto
      show ?thesis
      proof (cases "None \<in> set (arrayOf (profile.skills p))")
        case True
        then have "skillsField p = Inl TypeError" by (rule skillsField_raises)
        then have "processProfile clk p = Inl TypeError"
          unfolding processProfile_def f by (simp add: Let_def eds l)
        with True show ?thesis by blast
      next
        case n: False
        then obtain sk where sk: "skillsField p = Inr sk"
          using skillsField_returns [of p] by auto
        have "processProfile clk p \<noteq> Inl TypeError"
          using processProfile_decode [OF np eds l sk, of clk]
          by (cases "decodeURI (toString (username p))") auto
        with np ne False n show ?thesis by blast
      qed
    qed
  qed
qed

text \<open>
  C1 does not hold of the code.  A profile that has a user name and a \<open>urn\<close> and no
  \<open>supportedLocales\<close> array makes \<open>processProfile\<close> throw a \<open>TypeError\<close>: the function
  that computes \<open>output.languages\<close> indexes \<open>profile.supportedLocales\<close> without testing
  that it is there.
\<close>

theorem C1_absent_supportedLocales:
  "processProfile (steadyClock 1793664000000) noLocalesProfile = Inl TypeError"
  by code_simp

subsection \<open>The identifier fields\<close>

text \<open>
  Once the fields computed before them raise no \<open>TypeError\<close>, the identifier fields are
  what \<open>decodeURI\<close> makes of the user name: \<open>processProfile\<close> throws a \<open>URIError\<close> exactly
  when \<open>decodeURI\<close> fails on the user name, and when it succeeds \<open>processProfile\<close>
  returns, \<open>public_linkedin_identifier\<close> is the decoded user name and \<open>linkedin_url\<close> is
  \<open>https://linkedin.com/in/\<close> followed by it.
\<close>

lemma decode_error_iff:
  assumes "None \<notin> set (arrayOf (position p))"
    and "None \<notin> set (arrayOf (profile.educations p))"
    and "supportedLocales p \<noteq> None"
    and "None \<notin> set (arrayOf (profile.languages p))"
    and "None \<notin> set (arrayOf (profile.skills p))"
  shows "(processProfile clk p = Inl URIError \<longleftrightarrow> decodeURI (toString (username p)) = None) \<and>
    (\<forall>u. decodeURI (toString (username p)) = Some u \<longrightarrow>
       (\<exists>out. processProfile clk p = Inr out \<and> public_linkedin_identifier out = u \<and>
              linkedin_url out = js ''https://linkedin.com/in/'' @ u))"
proof -
  obtain eds where eds: "educationsArray p = Inr eds"
    using educationsArray_cases [of p] assms(2) by auto
  obtain l where l: "languagesField p = Inr l"
    using languagesField_returns [OF assms(3,4)] by auto
  obtain sk where sk: "skillsField p = Inr sk"
    using skillsField_returns [OF assms(5)] by auto
  show ?thesis by (rule processProfile_decode [OF assms(1) eds l sk])
qed

lemma decode_error_example:
  "processProfile (steadyClock 1793664000000) badNameProfile = Inl URIError"
  by code_simp

text \<open>
  C9 does not hold of the code.  A profile with the user name \<open>%\<close>, which does not
  decode, and without a \<open>supportedLocales\<close> array makes \<open>processProfile\<close> throw the
  \<open>TypeError\<close> of the languages field, raised before the user name is decoded, and not
  the \<open>URIError\<close> of the decoding.  The cause is the unguarded read of
  \<open>profile.supportedLocales\<close>, the one that makes a profile without that array throw.
\<close>

theorem C9_decode_error_preempted:
  "decodeURI (toString (username badNameNoLocales)) = None \<and>
   processProfile (steadyClock 1793664000000) badNameNoLocales = Inl TypeError"
  by code_simp

subsection \<open>Positions without a company id\<close>

lemma run_join:
  assumes "lastCompanyId st = Some c" "experienceArray st = A @ [g]"
    "\<forall>pos \<in> set xs. companyIdOf pos = c"
  shows "experienceArray (positionsLoop clk st xs) =
           A @ [g \<lparr> experienceEntry.jobs := jobs g @ map jobOf (timed clk (reads st) xs) \<rparr>] \<and>
         lastCompanyId (positionsLoop clk st xs) = Some c"
  using assms
proof (induction xs arbitrary: st g)
  case Nil
  then show ?case by (simp add: positionsLoop_def timed_Nil)
next
  case (Cons x xs)
  define j where "j = jobOf (clk (reads st), x)"
  from Cons.prems have cx: "Some (companyIdOf x) = lastCompanyId st" by simp
  have a: "experienceArray (positionStep clk st x) = A @ [pushJob j g]"
    unfolding j_def by (rule step_join [OF cx Cons.prems(2)])
  have l: "lastCompanyId (positionStep clk st x) = Some c"
    using Cons.prems(3) by (simp add: step_lastCompanyId)
  have r: "reads (positionStep clk st x) = Suc (reads st)" by (rule step_reads)
  from Cons.prems(3) have rest: "\<forall>pos \<in> set xs. companyIdOf pos = c" by simp
  have u: "(pushJob j g) \<lparr> experienceEntry.jobs :=
              jobs (pushJob j g) @ map jobOf (timed clk (Suc (reads st)) xs) \<rparr>
           = g \<lparr> experienceEntry.jobs := jobs g @ map jobOf (timed clk (reads st) (x # xs)) \<rparr>"
    by (simp add: pushJob_def timed_Cons j_def)
  from Cons.IH [OF l a rest] show ?case
    unfolding loop_Cons r u by simp
qed

lemma prefix_preserved:
  assumes "experienceArray st = A @ [h]"
  shows "\<exists>G. experienceArray (positionsLoop clk st ps) = A @ G"
  using assms
proof (induction ps arbitrary: st A h)
  case Nil
  then show ?case by (simp add: positionsLoop_def)
next
  case (Cons x ps)
  show ?case
  proof (cases "Some (companyIdOf x) = lastCompanyId st")
    case True
    have "experienceArray (positionStep clk st x) =
            A @ [pushJob (jobOf (clk (reads st), x)) h]"
      by (rule step_join [OF True Cons.prems])
    from Cons.IH [OF this] show ?thesis unfolding loop_Cons .
  next
    case False
    then have "experienceArray (positionStep clk st x) =
        experienceArray st @ [groupOf [(clk (reads st), x)]]"
      by (intro step_new) simp
    then have "experienceArray (positionStep clk st x) =
        (A @ [h]) @ [groupOf [(clk (reads st), x)]]"
      unfolding Cons.prems .
    from Cons.IH [OF this] obtain G where
      "experienceArray (positionsLoop clk (positionStep clk st x) ps) = (A @ [h]) @ G"
      by blast
    then show ?thesis unfolding loop_Cons by simp
  qed
qed

lemma maximal_run_group:
  assumes st: "experienceArray st = []"
    and run: "run \<noteq> []" "\<forall>pos \<in> set run. companyIdOf pos = c"
    and left: "pre = [] \<or> companyIdOf (last pre) \<noteq> c"
    and right: "post = [] \<or> companyIdOf (hd post) \<noteq> c"
  shows "\<exists>G2. experienceArray (positionsLoop clk st (pre @ run @ post)) =
           experienceArray (positionsLoop clk st pre)
             @ [groupOf (timed clk (reads st + length pre) run)] @ G2"
proof -
  define S1 where "S1 = positionsLoop clk st pre"
  from run(1) obtain x xs where xs: "run = x # xs" by (cases run) auto
  with run(2) have cx: "companyIdOf x = c" and rest: "\<forall>pos \<in> set xs. companyIdOf pos = c"
    by simp_all
  have r1: "reads S1 = reads st + length pre" by (simp add: S1_def reads_positionsLoop)
  have "Some (companyIdOf x) \<noteq> lastCompanyId S1 \<or> experienceArray S1 = []"
  proof (cases "pre = []")
    case True
    then show ?thesis using st by (simp add: S1_def positionsLoop_def)
  next
    case False
    then have "lastCompanyId S1 = Some (companyIdOf (last pre))"
      unfolding S1_def by (rule loop_lastCompanyId)
    with False left cx show ?thesis by auto
  qed
  then have a2: "experienceArray (positionStep clk S1 x) =
      experienceArray S1 @ [groupOf [(clk (reads S1), x)]]"
    by (rule step_new)
  have l2: "lastCompanyId (positionStep clk S1 x) = Some c"
    by (simp add: step_lastCompanyId cx)
  define S3 where "S3 = positionsLoop clk (positionStep clk S1 x) xs"
  have g: "(groupOf [(clk (reads S1), x)]) \<lparr> experienceEntry.jobs :=
             jobs (groupOf [(clk (reads S1), x)])
               @ map jobOf (timed clk (reads (positionStep clk S1 x)) xs) \<rparr>
           = groupOf (timed clk (reads st + length pre) run)"
    by (simp add: groupOf_def Let_def xs timed_Cons step_reads r1)
  from run_join [OF l2 a2 rest, of clk] have a3:
    "experienceArray S3 = experienceArray S1 @ [groupOf (timed clk (reads st + length pre) run)]"
    and l3: "lastCompanyId S3 = Some c"
    unfolding g S3_def by simp_all
  have whole: "positionsLoop clk st (pre @ run @ post) = positionsLoop clk S3 post"
    by (simp add: loop_append loop_Cons S1_def S3_def xs)
  show ?thesis
  proof (cases post)
    case Nil
    then show ?thesis unfolding whole using a3 by (simp add: positionsLoop_def S1_def)
  next
    case (Cons y ys)
    with right l3 have "Some (companyIdOf y) \<noteq> lastCompanyId S3" by simp
    then have "experienceArray (positionStep clk S3 y) =
        experienceArray S3 @ [groupOf [(clk (reads S3), y)]]"
      by (intro step_new) simp
    from prefix_preserved [OF this, of clk ys] obtain G where
      "experienceArray (positionsLoop clk (positionStep clk S3 y) ys) = experienceArray S3 @ G"
      by blast
    moreover have "positionsLoop clk st (pre @ run @ post)
        = positionsLoop clk (positionStep clk S3 y) ys"
      unfolding whole by (simp add: Cons loop_Cons)
    ultimately show ?thesis by (simp add: a3 S1_def)
  qed
qed

lemma snd_hd_timed: "ps \<noteq> [] \<Longrightarrow> snd (hd (timed clk k ps)) = hd ps"
  by (cases ps) (simp_all add: timed_Cons)

text \<open>
  C10.  Take a maximal run of two or more consecutive positions without a company id
  (absent or empty, so that \<open>pos.companyId || ''\<close> is the empty string): the run starts
  the list or follows a position that has a company id, and ends the list or is followed
  by one that has.  Then the run is one experience group, placed after the groups of the
  positions before it: it has the employer data of the first position of the run (its
  company name, or \<open>Unknown Company\<close> when that is absent too), the empty company id,
  and the job entries of the positions of the run, whatever their company names.
\<close>

theorem C10_missing_companyId:
  assumes "processProfile clk p = Inr out"
    and "positionsOf p = pre @ run @ post"
    and "2 \<le> length run"
    and "\<forall>pos \<in> set run. companyIdOf pos = []"
    and "pre = [] \<or> companyIdOf (last pre) \<noteq> []"
    and "post = [] \<or> companyIdOf (hd post) \<noteq> []"
  shows "\<exists>g G2.
           experiences out = experienceArray (positionsLoop clk (initialState p) pre) @ g # G2 \<and>
           g = groupOf (timed clk (length pre) run) \<and>
           company g = orStr (companyName (hd run)) (js ''Unknown Company'') \<and>
           experienceEntry.companyId g = [] \<and>
           jobs g = map jobOf (timed clk (length pre) run)"
proof -
  have i: "experienceArray (initialState p) = []" "reads (initialState p) = 0"
    by (simp_all add: initialState_def)
  from assms(3) have ne: "run \<noteq> []" by auto
  have e: "experiences out = experienceArray (positionsLoop clk (initialState p) (pre @ run @ post))"
    using processProfile_experiences [OF assms(1)] unfolding assms(2) .
  from maximal_run_group [OF i(1) ne assms(4) assms(5) assms(6), of clk] obtain G2 where
    g: "experiences out = experienceArray (positionsLoop clk (initialState p) pre)
          @ [groupOf (timed clk (length pre) run)] @ G2"
    unfolding e i(2) by auto
  have h: "snd (hd (timed clk (length pre) run)) = hd run" by (rule snd_hd_timed [OF ne])
  have c: "company (groupOf (timed clk (length pre) run))
             = orStr (companyName (hd run)) (js ''Unknown Company'')"
    by (simp add: groupOf_def Let_def h)
  from ne assms(4) have "companyIdOf (hd run) = []" by simp
  then have d: "experienceEntry.companyId (groupOf (timed clk (length pre) run)) = []"
    by (simp add: groupOf_def Let_def h companyIdOf_def)
  have j: "jobs (groupOf (timed clk (length pre) run)) = map jobOf (timed clk (length pre) run)"
    by (rule jobs_groupOf)
  from g c d j show ?thesis by simp
qed

theorem C10_missing_companyId_witness:
  "\<not> isl (processProfile (\<lambda>k. 1793664000000) noIdProfile) \<and>
   (\<exists>G1 g G2. experiences (projr (processProfile (\<lambda>k. 1793664000000) noIdProfile)) = G1 @ g # G2 \<and>
      company g = js ''Initech'' \<and> experienceEntry.companyId g = [] \<and> length (jobs g) = 2)"
proof -
  have a: "\<not> isl (processProfile (\<lambda>k. 1793664000000) noIdProfile)" by code_simp
  then have b: "processProfile (\<lambda>k. 1793664000000) noIdProfile
      = Inr (projr (processProfile (\<lambda>k. 1793664000000) noIdProfile))"
    by simp
  have p: "positionsOf noIdProfile = [acmeJob] @ [initechJob, globexJob] @ [hooliJob]"
    by code_simp
  have l: "2 \<le> length [initechJob, globexJob]" by simp
  have r: "\<forall>pos \<in> set [initechJob, globexJob]. companyIdOf pos = []" by code_simp
  have le: "[acmeJob] = [] \<or> companyIdOf (last [acmeJob]) \<noteq> []" by code_simp
  have ri: "[hooliJob] = [] \<or> companyIdOf (hd [hooliJob]) \<noteq> []" by code_simp
  have n: "orStr (companyName (hd [initechJob, globexJob])) (js ''Unknown Company'') = js ''Initech''"
    by code_simp
  from C10_missing_companyId [OF b p l r le ri] obtain g G2 where
    "experiences (projr (processProfile (\<lambda>k. 1793664000000) noIdProfile))
       = experienceArray (positionsLoop (\<lambda>k. 1793664000000) (initialState noIdProfile) [acmeJob]) @ g # G2"
    "company g = js ''Initech''" "experienceEntry.companyId g = []"
    "jobs g = map jobOf (timed (\<lambda>k. 1793664000000) (length [acmeJob]) [initechJob, globexJob])"
    unfolding n by blast
  then have "experiences (projr (processProfile (\<lambda>k. 1793664000000) noIdProfile))
       = experienceArray (positionsLoop (\<lambda>k. 1793664000000) (initialState noIdProfile) [acmeJob]) @ g # G2 \<and>
      company g = js ''Initech'' \<and> experienceEntry.companyId g = [] \<and> length (jobs g) = 2"
    by (simp add: length_timed)
  with a show ?thesis by blast
qed

end
